theory Spec2Isabelle
  imports Complex_Main "HOL-Library.Sublist" "HOL-Library.Char_ord" "HOL-Library.List_Lexorder"
begin

section \<open>Values of the host language\<close>

text \<open>
  A JavaScript number is modelled by the real value of the (finite) double. The values that
  reach a comparison from a decoded JSON document are a number, \<open>null\<close>, or
  \<open>undefined\<close> (the key or array slot is absent).
\<close>

datatype jsval = Num real | Null | Undefined

text \<open>\<open>ToNumber\<close> of the language; \<open>None\<close> stands for NaN.\<close>

fun ToNumber :: "jsval \<Rightarrow> real option" where
  "ToNumber (Num r) = Some r"
| "ToNumber Null = Some 0"
| "ToNumber Undefined = None"

text \<open>\<open>v >= b\<close> and \<open>v <= b\<close> against a number: a comparison with NaN is false.\<close>

definition js_ge :: "jsval \<Rightarrow> real \<Rightarrow> bool" where
  "js_ge v b = (case ToNumber v of None \<Rightarrow> False | Some r \<Rightarrow> b \<le> r)"

definition js_le :: "jsval \<Rightarrow> real \<Rightarrow> bool" where
  "js_le v b = (case ToNumber v of None \<Rightarrow> False | Some r \<Rightarrow> r \<le> b)"

text \<open>An error object: its \<open>name\<close> and its \<open>message\<close>.\<close>

datatype js_error = JsError (name: string) (message: string)

definition Error :: "string \<Rightarrow> js_error" where
  "Error msg = JsError ''Error'' msg"

definition TypeError :: "string \<Rightarrow> js_error" where
  "TypeError msg = JsError ''TypeError'' msg"

text \<open>\<open>s.includes(t)\<close>: \<open>t\<close> occurs in \<open>s\<close> as a contiguous substring.\<close>

fun str_includes :: "string \<Rightarrow> string \<Rightarrow> bool" where
  "str_includes [] t = (t = [])"
| "str_includes (c # s) t = (prefix t (c # s) \<or> str_includes s t)"

text \<open>\<open>x || ""\<close> and the template rendering \<open>${x}\<close> of an optional string.\<close>

fun or_empty :: "string option \<Rightarrow> string" where
  "or_empty None = ''''"
| "or_empty (Some s) = s"

fun template_str :: "string option \<Rightarrow> string" where
  "template_str None = ''undefined''"
| "template_str (Some s) = s"

text \<open>Decimal rendering of a natural number (an HTTP status in a template string).\<close>

definition digit :: "nat \<Rightarrow> char" where
  "digit n = ''0123456789'' ! n"

fun show_nat :: "nat \<Rightarrow> string" where
  "show_nat n = (if n < 10 then [digit n] else show_nat (n div 10) @ [digit (n mod 10)])"

declare show_nat.simps [simp del]

text \<open>
  What the code takes from the engine it runs on, as parameters of the model: the rendering
  of a number in a template string, and \<open>new Date(s).getTime()\<close> for a string
  (\<open>None\<close> is the invalid date, NaN). The standard fixes the second on the date-only
  form \<open>YYYY-MM-DD\<close> (see \<open>parseDateOnly\<close>); what becomes of any other
  string is the engine's own.
\<close>

record engine =
  numberToString :: "real \<Rightarrow> string"
  dateParse :: "string \<Rightarrow> int option"

section \<open>Data model (lib/types)\<close>

record EarthquakeProperties =
  mag :: jsval
  place :: string
  time :: int

record Geometry =
  coordinates :: "jsval list option"

record Earthquake =
  feature_id :: string
  properties :: "EarthquakeProperties option"
  geometry :: "Geometry option"

record Metadata =
  generated :: int
  url :: string
  title :: string
  status :: int
  api :: string
  count :: int

text \<open>
  The decoded payload is not checked against the interface at run time, so the two
  top-level members the code dereferences may be absent.
\<close>

record EarthquakeData =
  metadata :: "Metadata option"
  features :: "Earthquake list option"

record FetchEarthquakesParams =
  timeRange :: string
  minMagnitude :: real
  startDate :: "string option"
  endDate :: "string option"

section \<open>The environment of a call\<close>

datatype cache_item = CacheItem EarthquakeData int | Unparsable

datatype body = JsonOk EarthquakeData | JsonFail js_error

record Response =
  ok :: bool
  resp_status :: nat
  statusText :: string
  json :: body

datatype fetch_outcome = Rejects js_error | Resolves Response

text \<open>
  The world a call runs in: whether \<open>window\<close> exists, the contents of
  \<open>localStorage\<close>, whether \<open>setItem\<close> throws, the clock in milliseconds,
  what the network answers to a URL requested at a time (the latency in milliseconds and
  the outcome), and the log of the URLs requested so far.
\<close>

record world =
  window_defined :: bool
  localStorage :: "string \<rightharpoonup> cache_item"
  quota_exceeded :: bool
  clock :: int
  network :: "string \<Rightarrow> int \<Rightarrow> nat \<times> fetch_outcome"
  requests :: "string list"

section \<open>Cache store (lib/api)\<close>

definition CACHE_DURATIONS :: "string \<rightharpoonup> int" where
  "CACHE_DURATIONS =
     [''hour'' \<mapsto> 5 * 60 * 1000,
      ''day'' \<mapsto> 15 * 60 * 1000,
      ''week'' \<mapsto> 60 * 60 * 1000,
      ''historical'' \<mapsto> 24 * 60 * 60 * 1000]"

text \<open>
  The names of the members an object literal inherits from \<open>Object.prototype\<close>. A
  bracket lookup with one of them finds the inherited member, a function or an object: a
  value that is truthy and, as a number, NaN.
\<close>

definition OBJECT_PROTOTYPE_MEMBERS :: "string list" where
  "OBJECT_PROTOTYPE_MEMBERS =
     [''constructor'', ''hasOwnProperty'', ''isPrototypeOf'', ''propertyIsEnumerable'',
      ''toLocaleString'', ''toString'', ''valueOf'', ''__proto__'',
      ''__defineGetter__'', ''__defineSetter__'', ''__lookupGetter__'', ''__lookupSetter__'']"

text \<open>
  \<open>CACHE_DURATIONS[timeRange] || CACHE_DURATIONS.day\<close> as a number: \<open>None\<close> is NaN,
  the value of an inherited member.
\<close>

definition cacheDuration :: "string \<Rightarrow> int option" where
  "cacheDuration tr =
     (case CACHE_DURATIONS tr of
        Some v \<Rightarrow> if v \<noteq> 0 then Some v else CACHE_DURATIONS ''day''
      | None \<Rightarrow> if tr \<in> set OBJECT_PROTOTYPE_MEMBERS then None else CACHE_DURATIONS ''day'')"

definition getCachedData :: "world \<Rightarrow> string \<Rightarrow> string \<Rightarrow> EarthquakeData option" where
  "getCachedData w key tr =
     (if \<not> window_defined w then None
      else case localStorage w key of
             None \<Rightarrow> None
           | Some Unparsable \<Rightarrow> None
           | Some (CacheItem d ts) \<Rightarrow>
               (case cacheDuration tr of
                  None \<Rightarrow> None
                | Some duration \<Rightarrow> if clock w - ts < duration then Some d else None))"

definition cacheData :: "world \<Rightarrow> string \<Rightarrow> EarthquakeData \<Rightarrow> string \<Rightarrow> world" where
  "cacheData w key d tr =
     (if window_defined w \<and> \<not> quota_exceeded w
      then w\<lparr>localStorage := (localStorage w)(key \<mapsto> CacheItem d (clock w))\<rparr>
      else w)"

section \<open>Dates of the host language\<close>

text \<open>
  The calendar of the language standard: the day number of the first day of a year, the
  length of a year, and the year, month and day of the month of a day number (days since
  1970-01-01, UTC).
\<close>

definition msPerDay :: int where
  "msPerDay = 86400000"

definition DayFromYear :: "int \<Rightarrow> int" where
  "DayFromYear y =
     365 * (y - 1970) + (y - 1969) div 4 - (y - 1901) div 100 + (y - 1601) div 400"

definition DaysInYear :: "int \<Rightarrow> int" where
  "DaysInYear y =
     (if y mod 4 \<noteq> 0 then 365
      else if y mod 100 \<noteq> 0 then 366
      else if y mod 400 \<noteq> 0 then 365
      else 366)"

definition InLeapYear :: "int \<Rightarrow> int" where
  "InLeapYear y = (if DaysInYear y = 366 then 1 else 0)"

lemma div_step:
  fixes a n :: int
  assumes "0 < n"
  shows "(a + 1) div n = a div n + (if (a + 1) mod n = 0 then 1 else 0)"
proof -
  define q r where "q = a div n" and "r = a mod n"
  have a: "a + 1 = (r + 1) + q * n"
    by (simp add: q_def r_def)
  have r: "0 \<le> r" "r < n"
    using assms by (simp_all add: r_def)
  have d: "(a + 1) div n = q + (r + 1) div n"
    unfolding a using assms by (simp only: div_mult_self1 [of n "r + 1" q])
  have m: "(a + 1) mod n = (r + 1) mod n"
    unfolding a by (simp only: mod_mult_self1)
  show ?thesis
  proof (cases "r + 1 = n")
    case True
    then show ?thesis using d m assms by (simp add: q_def)
  next
    case False
    with r have "r + 1 < n" by simp
    then have "(r + 1) div n = 0" "(r + 1) mod n = r + 1"
      using r by simp_all
    then show ?thesis using d m r by (simp add: q_def)
  qed
qed

lemma mod_shift: "((y::int) - k * n) mod n = y mod n"
  by (metis mod_diff_eq diff_zero mod_mult_self2_is_0 mod_mod_trivial)

lemma mod_400_100: "(y::int) mod 400 = 0 \<Longrightarrow> y mod 100 = 0"
  by auto

lemma mod_100_4: "(y::int) mod 100 = 0 \<Longrightarrow> y mod 4 = 0"
  by auto

lemma DayFromYear_Suc: "DayFromYear (y + 1) = DayFromYear y + DaysInYear y"
proof -
  have s4: "(y + 1 - 1969) div 4 = (y - 1969) div 4 + (if y mod 4 = 0 then 1 else 0)"
    using div_step [of 4 "y - 1969"] mod_shift [of y 492 4] by (simp add: algebra_simps)
  have s100: "(y + 1 - 1901) div 100 = (y - 1901) div 100 + (if y mod 100 = 0 then 1 else 0)"
    using div_step [of 100 "y - 1901"] mod_shift [of y 19 100] by (simp add: algebra_simps)
  have s400: "(y + 1 - 1601) div 400 = (y - 1601) div 400 + (if y mod 400 = 0 then 1 else 0)"
    using div_step [of 400 "y - 1601"] mod_shift [of y 4 400] by (simp add: algebra_simps)
  show ?thesis
    unfolding DayFromYear_def DaysInYear_def s4 s100 s400
    using mod_400_100 [of y] mod_100_4 [of y] by auto
qed

lemma DaysInYear_bounds: "365 \<le> DaysInYear y \<and> DaysInYear y \<le> 366"
  by (simp add: DaysInYear_def)

text \<open>
  The year of a day number is the largest \<open>y\<close> with \<open>DayFromYear y \<le> day\<close>: it is
  searched upwards from a year that is not after it.
\<close>

function year_search :: "int \<Rightarrow> int \<Rightarrow> int" where
  "year_search day y = (if DayFromYear (y + 1) \<le> day then year_search day (y + 1) else y)"
  by pat_completeness auto
termination
proof (relation "measure (\<lambda>(day, y). nat (day - DayFromYear (y + 1) + 1))")
  show "wf (measure (\<lambda>(day, y). nat (day - DayFromYear (y + 1) + 1)))"
    by simp
next
  fix day y :: int
  assume "DayFromYear (y + 1) \<le> day"
  moreover have "DayFromYear (y + 1 + 1) = DayFromYear (y + 1) + DaysInYear (y + 1)"
    by (rule DayFromYear_Suc)
  moreover have "365 \<le> DaysInYear (y + 1)"
    using DaysInYear_bounds by blast
  ultimately show "((day, y + 1), (day, y)) \<in> measure (\<lambda>(day, y). nat (day - DayFromYear (y + 1) + 1))"
    by simp
qed

declare year_search.simps [simp del]

definition YearFromDay :: "int \<Rightarrow> int" where
  "YearFromDay day =
     year_search day (1970 + (if 0 \<le> day then day div 366 else day div 365))"

text \<open>The first day (within the year) of month \<open>m\<close> (0 to 11; 12 is the year's end).\<close>

definition month_start :: "int \<Rightarrow> nat \<Rightarrow> int" where
  "month_start leap m =
     (if m = 0 then 0 else if m = 1 then 31 else if m = 2 then 59 + leap
      else if m = 3 then 90 + leap else if m = 4 then 120 + leap
      else if m = 5 then 151 + leap else if m = 6 then 181 + leap
      else if m = 7 then 212 + leap else if m = 8 then 243 + leap
      else if m = 9 then 273 + leap else if m = 10 then 304 + leap
      else if m = 11 then 334 + leap else 365 + leap)"

definition MonthFromDay :: "int \<Rightarrow> int \<Rightarrow> nat" where
  "MonthFromDay leap d =
     (if d < 31 then 0 else if d < 59 + leap then 1 else if d < 90 + leap then 2
      else if d < 120 + leap then 3 else if d < 151 + leap then 4
      else if d < 181 + leap then 5 else if d < 212 + leap then 6
      else if d < 243 + leap then 7 else if d < 273 + leap then 8
      else if d < 304 + leap then 9 else if d < 334 + leap then 10 else 11)"

text \<open>Zero-padded decimal fields, and the year field of the ISO format.\<close>

definition pad2 :: "nat \<Rightarrow> string" where
  "pad2 n = [digit (n div 10 mod 10), digit (n mod 10)]"

definition pad4 :: "nat \<Rightarrow> string" where
  "pad4 n = pad2 (n div 100 mod 100) @ pad2 (n mod 100)"

definition pad6 :: "nat \<Rightarrow> string" where
  "pad6 n = pad2 (n div 10000 mod 100) @ pad4 n"

definition iso_year :: "int \<Rightarrow> string" where
  "iso_year y =
     (if 0 \<le> y \<and> y \<le> 9999 then pad4 (nat y)
      else (if y < 0 then ''-'' else ''+'') @ pad6 (nat \<bar>y\<bar>))"

text \<open>
  The calendar date \<open>(year, month 1..12, day)\<close> of an instant, and
  \<open>new Date(t).toISOString().split("T")[0]\<close>.
\<close>

definition civil_of_ms :: "int \<Rightarrow> int \<times> nat \<times> nat" where
  "civil_of_ms t =
     (let day = t div msPerDay;
          y = YearFromDay day;
          d = day - DayFromYear y;
          m = MonthFromDay (InLeapYear y) d
      in (y, m + 1, nat (d - month_start (InLeapYear y) m + 1)))"

definition iso_date :: "int \<times> nat \<times> nat \<Rightarrow> string" where
  "iso_date c = (case c of (y, m, d) \<Rightarrow> iso_year y @ ''-'' @ pad2 m @ ''-'' @ pad2 d)"

definition toISODate :: "int \<Rightarrow> string" where
  "toISODate t = iso_date (civil_of_ms t)"

text \<open>
  The parse the standard fixes: the date-only form \<open>YYYY-MM-DD\<close>, which is what a date
  input delivers, is midnight UTC of that day. \<open>parseDateOnly\<close> accepts that form
  alone; it is the parser of the examples, whose dates all have that form.
\<close>

definition is_digit :: "char \<Rightarrow> bool" where
  "is_digit c = (48 \<le> (of_char c :: nat) \<and> (of_char c :: nat) \<le> 57)"

definition digits_val :: "string \<Rightarrow> nat" where
  "digits_val ds = foldl (\<lambda>a c. 10 * a + ((of_char c :: nat) - 48)) 0 ds"

definition day_number :: "int \<Rightarrow> nat \<Rightarrow> nat \<Rightarrow> int" where
  "day_number y m d = DayFromYear y + month_start (InLeapYear y) (m - 1) + int d - 1"

definition DaysInMonth :: "int \<Rightarrow> nat \<Rightarrow> int" where
  "DaysInMonth y m = month_start (InLeapYear y) m - month_start (InLeapYear y) (m - 1)"

definition parseDateOnly :: "string \<Rightarrow> int option" where
  "parseDateOnly s =
     (if length s = 10 \<and> s ! 4 = CHR ''-'' \<and> s ! 7 = CHR ''-''
         \<and> list_all is_digit (take 4 s) \<and> list_all is_digit (take 2 (drop 5 s))
         \<and> list_all is_digit (drop 8 s)
      then let y = int (digits_val (take 4 s));
               m = digits_val (take 2 (drop 5 s));
               d = digits_val (drop 8 s)
           in if 1 \<le> m \<and> m \<le> 12 \<and> 1 \<le> d \<and> int d \<le> DaysInMonth y m
              then Some (msPerDay * day_number y m d) else None
      else None)"

text \<open>\<open>new Date(s) > now\<close>: false for the invalid date.\<close>

definition date_after :: "engine \<Rightarrow> string \<Rightarrow> int \<Rightarrow> bool" where
  "date_after eng s now = (case dateParse eng s of None \<Rightarrow> False | Some t \<Rightarrow> now < t)"

section \<open>Query building, fetching and normalising (lib/api, fetchEarthquakes)\<close>

text \<open>Format: min longitude, min latitude, max longitude, max latitude.\<close>

definition IRAN_BOUNDS :: "real list" where
  "IRAN_BOUNDS = [44.0, 25.0, 63.0, 40.0]"

text \<open>The cache key.\<close>

definition cacheKey :: "engine \<Rightarrow> FetchEarthquakesParams \<Rightarrow> string" where
  "cacheKey eng p =
     ''earthquake_data_'' @ timeRange p @ ''_'' @ numberToString eng (minMagnitude p) @ ''_''
       @ or_empty (startDate p) @ ''_'' @ or_empty (endDate p) @ ''_iran''"

text \<open>The cache category of a call: \<open>timeRange === "custom" ? "historical" : timeRange\<close>.\<close>

definition cacheCategory :: "FetchEarthquakesParams \<Rightarrow> string" where
  "cacheCategory p = (if timeRange p = ''custom'' then ''historical'' else timeRange p)"

text \<open>\<open>endDate && new Date(endDate) > now ? today : endDate\<close>\<close>

definition validEndDate :: "engine \<Rightarrow> int \<Rightarrow> string option \<Rightarrow> string option" where
  "validEndDate eng now e =
     (case e of
        None \<Rightarrow> None
      | Some s \<Rightarrow> if s \<noteq> [] \<and> date_after eng s now then Some (toISODate now) else Some s)"

definition requestUrl :: "engine \<Rightarrow> int \<Rightarrow> FetchEarthquakesParams \<Rightarrow> string" where
  "requestUrl eng now p =
     (if timeRange p = ''custom''
      then ''https://earthquake.usgs.gov/fdsnws/event/1/query?format=geojson''
           @ ''&starttime='' @ template_str (startDate p)
           @ ''&endtime='' @ template_str (validEndDate eng now (endDate p))
           @ ''&minmagnitude='' @ numberToString eng (minMagnitude p)
           @ ''&minlatitude='' @ numberToString eng (IRAN_BOUNDS ! 1)
           @ ''&maxlatitude='' @ numberToString eng (IRAN_BOUNDS ! 3)
           @ ''&minlongitude='' @ numberToString eng (IRAN_BOUNDS ! 0)
           @ ''&maxlongitude='' @ numberToString eng (IRAN_BOUNDS ! 2)
           @ ''&orderby=time''
           @ ''&limit=500''
      else ''https://earthquake.usgs.gov/earthquakes/feed/v1.0/summary/all_'' @ timeRange p
           @ ''.geojson'')"

text \<open>
  The callback of the real-time filter. Destructuring \<open>feature.geometry.coordinates\<close>
  throws when the geometry or its coordinates are absent; a missing array slot is
  \<open>undefined\<close>. \<open>feature.properties.mag\<close> is only reached when the four bounds hold,
  and throws when the properties are absent. An absent member stands for \<open>undefined\<close>
  and for \<open>null\<close> alike. The text of these type errors is the engine's (written here
  without its quotation marks); what the code tests of it is in \<open>catchBlock\<close>.
\<close>

definition coord :: "jsval list \<Rightarrow> nat \<Rightarrow> jsval" where
  "coord cs i = (if i < length cs then cs ! i else Undefined)"

definition keepFeature :: "real \<Rightarrow> Earthquake \<Rightarrow> js_error + bool" where
  "keepFeature minMag f =
     (case geometry f of
        None \<Rightarrow> Inl (TypeError ''Cannot read properties of undefined (reading coordinates)'')
      | Some g \<Rightarrow>
          (case coordinates g of
             None \<Rightarrow> Inl (TypeError ''undefined is not iterable'')
           | Some cs \<Rightarrow>
               (let lon = coord cs 0; lat = coord cs 1 in
                if js_ge lon (IRAN_BOUNDS ! 0) \<and> js_le lon (IRAN_BOUNDS ! 2)
                   \<and> js_ge lat (IRAN_BOUNDS ! 1) \<and> js_le lat (IRAN_BOUNDS ! 3)
                then (case properties f of
                        None \<Rightarrow> Inl (TypeError ''Cannot read properties of undefined (reading mag)'')
                      | Some pr \<Rightarrow> Inr (js_ge (mag pr) minMag))
                else Inr False)))"

text \<open>\<open>features.filter(callback)\<close>: the first callback that throws ends the filter.\<close>

fun filterFeatures :: "real \<Rightarrow> Earthquake list \<Rightarrow> js_error + Earthquake list" where
  "filterFeatures minMag [] = Inr []"
| "filterFeatures minMag (f # fs) =
     (case keepFeature minMag f of
        Inl e \<Rightarrow> Inl e
      | Inr keep \<Rightarrow>
          (case filterFeatures minMag fs of
             Inl e \<Rightarrow> Inl e
           | Inr kept \<Rightarrow> Inr (if keep then f # kept else kept)))"

text \<open>The real-time branch: filter the features, then update \<open>metadata.count\<close>.\<close>

definition filterRealTime :: "real \<Rightarrow> EarthquakeData \<Rightarrow> js_error + EarthquakeData" where
  "filterRealTime minMag d =
     (case features d of
        None \<Rightarrow> Inl (TypeError ''Cannot read properties of undefined (reading filter)'')
      | Some fs \<Rightarrow>
          (case filterFeatures minMag fs of
             Inl e \<Rightarrow> Inl e
           | Inr kept \<Rightarrow>
               (case metadata d of
                  None \<Rightarrow> Inl (TypeError ''Cannot set properties of undefined (setting count)'')
                | Some md \<Rightarrow>
                    Inr (d\<lparr>features := Some kept,
                            metadata := Some (md\<lparr>count := int (length kept)\<rparr>)\<rparr>))))"

definition AbortError :: js_error where
  "AbortError = JsError ''AbortError'' ''The operation was aborted.''"

text \<open>
  The body of the \<open>try\<close>: build the URL, request it, decode, filter a real-time feed,
  store the result in the cache. The request is logged, and the clock advances by its
  latency; a request that has not settled after 30000 milliseconds is aborted and rejects
  with an \<open>AbortError\<close>. The body is read after the timer is cleared.
\<close>

definition tryBlock ::
  "engine \<Rightarrow> world \<Rightarrow> FetchEarthquakesParams \<Rightarrow> string
     \<Rightarrow> world \<times> (js_error + EarthquakeData)" where
  "tryBlock eng w p key =
     (let u = requestUrl eng (clock w) p;
          answer = network w u (clock w);
          w1 = w\<lparr>requests := requests w @ [u],
                  clock := clock w + int (min (fst answer) 30000)\<rparr>
      in if 30000 \<le> fst answer then (w1, Inl AbortError)
         else (case snd answer of
                 Rejects e \<Rightarrow> (w1, Inl e)
               | Resolves r \<Rightarrow>
                   if \<not> ok r
                   then (w1, Inl (Error (''Server responded with '' @ show_nat (resp_status r)
                                          @ '': '' @ statusText r)))
                   else (case json r of
                           JsonFail e \<Rightarrow> (w1, Inl e)
                         | JsonOk d \<Rightarrow>
                             (case (if timeRange p \<noteq> ''custom''
                                    then filterRealTime (minMagnitude p) d else Inr d) of
                                Inl e \<Rightarrow> (w1, Inl e)
                              | Inr d' \<Rightarrow> (cacheData w1 key d' (cacheCategory p), Inr d')))))"

text \<open>The \<open>catch\<close>: the error thrown to the caller, or the fallback to the week feed.\<close>

datatype catch_result = Throw js_error | Fallback

definition catchBlock :: "FetchEarthquakesParams \<Rightarrow> js_error \<Rightarrow> catch_result" where
  "catchBlock p err =
     (if name err = ''AbortError''
      then Throw (Error ''Request timed out. The USGS server might be experiencing high load.'')
      else if str_includes (message err) ''Failed to fetch''
      then Throw (Error ''Network error. Please check your internet connection and try again.'')
      else if str_includes (message err) ''400''
      then (if str_includes (message err) ''orderby''
            then Throw (Error ''API parameter error. Please try again with different settings.'')
            else if timeRange p = ''custom''
            then Throw (Error
              ''Invalid date range. Please ensure your dates are valid and not in the future.'')
            else Throw (Error (''API error: '' @ message err)))
      else if timeRange p = ''custom'' then Fallback
      else Throw (Error (''Failed to fetch earthquake data: '' @ message err)))"

lemma catchBlock_Fallback: "catchBlock p err = Fallback \<Longrightarrow> timeRange p = ''custom''"
  by (simp add: catchBlock_def split: if_splits)

text \<open>The parameters of the fallback call.\<close>

definition weekParams :: "FetchEarthquakesParams \<Rightarrow> FetchEarthquakesParams" where
  "weekParams p =
     \<lparr>timeRange = ''week'', minMagnitude = minMagnitude p, startDate = None, endDate = None\<rparr>"

function fetchEarthquakes ::
  "engine \<Rightarrow> world \<Rightarrow> FetchEarthquakesParams
     \<Rightarrow> world \<times> (js_error + EarthquakeData)" where
  "fetchEarthquakes eng w p =
     (case getCachedData w (cacheKey eng p) (cacheCategory p) of
        Some d \<Rightarrow> (w, Inr d)
      | None \<Rightarrow>
          (case tryBlock eng w p (cacheKey eng p) of
             (w', Inr d) \<Rightarrow> (w', Inr d)
           | (w', Inl err) \<Rightarrow>
               (case catchBlock p err of
                  Throw e \<Rightarrow> (w', Inl e)
                | Fallback \<Rightarrow> fetchEarthquakes eng w' (weekParams p))))"
  by pat_completeness auto
termination
proof (relation "measure (\<lambda>(eng, w, p). if timeRange p = ''custom'' then 1 else 0)")
  show "wf (measure (\<lambda>(eng, w, p). if timeRange p = ''custom'' then 1 else (0::nat)))"
    by simp
next
  fix eng :: engine and w w' :: world and p :: FetchEarthquakesParams
    and err :: js_error
  assume "catchBlock p err = Fallback"
  then have "timeRange p = ''custom''"
    by (rule catchBlock_Fallback)
  then show "((eng, w', weekParams p), (eng, w, p))
      \<in> measure (\<lambda>(eng, w, p). if timeRange p = ''custom'' then 1 else 0)"
    by (simp add: weekParams_def)
qed

declare fetchEarthquakes.simps [simp del]

section \<open>The page and the sidebar (components)\<close>

record DateRange =
  dr_startDate :: string
  dr_endDate :: string

record Filters =
  f_timeRange :: string
  f_minMagnitude :: real
  isHistorical :: bool
  dateRange :: DateRange

text \<open>
  The page's \<open>handleFilterChange\<close>: the new state of the page, with the end date not
  after today. The comparison is the one of strings, by code units; the order of
  \<open>char list\<close> is the same on the characters of a date. The refresh timer is not
  modelled.
\<close>

definition handleFilterChange :: "int \<Rightarrow> Filters \<Rightarrow> Filters" where
  "handleFilterChange now filters =
     (let today = toISODate now;
          validEnd = (if dr_endDate (dateRange filters) > today then today
                      else dr_endDate (dateRange filters))
      in \<lparr>f_timeRange = f_timeRange filters,
          f_minMagnitude = f_minMagnitude filters,
          isHistorical = isHistorical filters,
          dateRange = \<lparr>dr_startDate = dr_startDate (dateRange filters),
                       dr_endDate = validEnd\<rparr>\<rparr>)"

text \<open>
  The parameters \<open>loadEarthquakeData\<close> passes to \<open>fetchEarthquakes\<close>, once the
  debounced magnitude and date range have caught up with the state.
\<close>

definition loadParams :: "Filters \<Rightarrow> FetchEarthquakesParams" where
  "loadParams st =
     \<lparr>timeRange = (if isHistorical st then ''custom'' else f_timeRange st),
      minMagnitude = f_minMagnitude st,
      startDate = Some (dr_startDate (dateRange st)),
      endDate = Some (dr_endDate (dateRange st))\<rparr>"

definition loadEarthquakeData ::
  "engine \<Rightarrow> world \<Rightarrow> Filters \<Rightarrow> world \<times> (js_error + EarthquakeData)" where
  "loadEarthquakeData eng w st = fetchEarthquakes eng w (loadParams st)"

text \<open>
  The sidebar's \<open>handleDateChange\<close>: the filters it hands to \<open>onFilterChange\<close>.
\<close>

datatype date_field = StartDateField | EndDateField

definition handleDateChange :: "int \<Rightarrow> Filters \<Rightarrow> date_field \<Rightarrow> string \<Rightarrow> Filters" where
  "handleDateChange now filters field v =
     (let today = toISODate now;
          v1 = (if field = EndDateField \<and> v > today then today else v);
          v2 = (if field = StartDateField \<and> v1 > dr_endDate (dateRange filters)
                then dr_endDate (dateRange filters) else v1)
      in filters\<lparr>dateRange :=
           (if field = StartDateField then (dateRange filters)\<lparr>dr_startDate := v2\<rparr>
            else (dateRange filters)\<lparr>dr_endDate := v2\<rparr>)\<rparr>)"

section \<open>Notions used in the statements\<close>

text \<open>
  The spec's reading of a record: its longitude, latitude and magnitude when they are
  numbers, the records that have all three, and the two conditions of the real-time filter.
\<close>

definition longitude :: "Earthquake \<Rightarrow> real option" where
  "longitude f =
     (case geometry f of
        None \<Rightarrow> None
      | Some g \<Rightarrow> (case coordinates g of
                    None \<Rightarrow> None
                  | Some cs \<Rightarrow> (case coord cs 0 of Num r \<Rightarrow> Some r | Null \<Rightarrow> None | Undefined \<Rightarrow> None)))"

definition latitude :: "Earthquake \<Rightarrow> real option" where
  "latitude f =
     (case geometry f of
        None \<Rightarrow> None
      | Some g \<Rightarrow> (case coordinates g of
                    None \<Rightarrow> None
                  | Some cs \<Rightarrow> (case coord cs 1 of Num r \<Rightarrow> Some r | Null \<Rightarrow> None | Undefined \<Rightarrow> None)))"

definition magnitude :: "Earthquake \<Rightarrow> real option" where
  "magnitude f =
     (case properties f of
        None \<Rightarrow> None
      | Some pr \<Rightarrow> (case mag pr of Num r \<Rightarrow> Some r | Null \<Rightarrow> None | Undefined \<Rightarrow> None))"

definition wellFormed :: "Earthquake \<Rightarrow> bool" where
  "wellFormed f = (longitude f \<noteq> None \<and> latitude f \<noteq> None \<and> magnitude f \<noteq> None)"

definition withinBoundsAndMagnitude :: "real \<Rightarrow> Earthquake \<Rightarrow> bool" where
  "withinBoundsAndMagnitude minMag f =
     (case longitude f of
        None \<Rightarrow> False
      | Some lon \<Rightarrow>
          (case latitude f of
             None \<Rightarrow> False
           | Some lat \<Rightarrow>
               (case magnitude f of
                  None \<Rightarrow> False
                | Some m \<Rightarrow> 44 \<le> lon \<and> lon \<le> 63 \<and> 25 \<le> lat \<and> lat \<le> 40 \<and> minMag \<le> m)))"

text \<open>The world after a request that took \<open>lat\<close> milliseconds (at most the timeout).\<close>

definition requested :: "engine \<Rightarrow> world \<Rightarrow> FetchEarthquakesParams \<Rightarrow> nat \<Rightarrow> world" where
  "requested eng w p lat =
     w\<lparr>requests := requests w @ [requestUrl eng (clock w) p],
       clock := clock w + int (min lat 30000)\<rparr>"

text \<open>
  A record the filter can read: it has a geometry with a coordinates array, and a
  properties object.
\<close>

definition readable :: "Earthquake \<Rightarrow> bool" where
  "readable f =
     (case geometry f of
        None \<Rightarrow> False
      | Some g \<Rightarrow> coordinates g \<noteq> None \<and> properties f \<noteq> None)"

text \<open>
  A readable record with a value missing: no number for the longitude or the latitude, or
  a magnitude that is absent, or \<open>null\<close> while the threshold is positive.
\<close>

definition lacksValue :: "real \<Rightarrow> Earthquake \<Rightarrow> bool" where
  "lacksValue minMag f =
     (readable f \<and>
      (longitude f = None \<or> latitude f = None
       \<or> map_option mag (properties f) = Some Undefined
       \<or> (map_option mag (properties f) = Some Null \<and> 0 < minMag)))"

text \<open>A string without an underscore, the separator of the cache key.\<close>

definition plain :: "string \<Rightarrow> bool" where
  "plain s = (CHR ''_'' \<notin> set s)"



section \<open>Example inputs\<close>

text \<open>
  A rendering of numbers for the examples, whose numbers are whole and not negative: their
  decimal digits, as the language prints them.
\<close>

definition whole_nts :: "real \<Rightarrow> string" where
  "whole_nts r = (if 0 \<le> r \<and> r = of_int \<lfloor>r\<rfloor> then show_nat (nat \<lfloor>r\<rfloor>) else ''NaN'')"

text \<open>
  The engine of the examples. Their dates have the date-only form, but for \<open>zzz\<close>,
  which no engine takes for a date.
\<close>

definition example_engine :: engine where
  "example_engine = \<lparr>numberToString = whole_nts, dateParse = parseDateOnly\<rparr>"

definition quake :: "string \<Rightarrow> real \<Rightarrow> real \<Rightarrow> real \<Rightarrow> Earthquake" where
  "quake i lon lat m =
     \<lparr>feature_id = i,
      properties = Some \<lparr>mag = Num m, place = ''somewhere'', time = 1793000000000\<rparr>,
      geometry = Some \<lparr>coordinates = Some [Num lon, Num lat, Num 10]\<rparr>\<rparr>"

definition payload :: "int \<Rightarrow> Earthquake list \<Rightarrow> EarthquakeData" where
  "payload n fs =
     \<lparr>metadata = Some \<lparr>generated = 1793700000000, url = ''upstream'', title = ''USGS'',
                        status = 200, api = ''1.10.3'', count = n\<rparr>,
      features = Some fs\<rparr>"

definition offline :: "string \<Rightarrow> int \<Rightarrow> nat \<times> fetch_outcome" where
  "offline u t = (20, Rejects (TypeError ''Failed to fetch''))"


definition respond :: "EarthquakeData \<Rightarrow> fetch_outcome" where
  "respond d = Resolves \<lparr>ok = True, resp_status = 200, statusText = ''OK'', json = JsonOk d\<rparr>"

definition browser :: "(string \<Rightarrow> int \<Rightarrow> nat \<times> fetch_outcome) \<Rightarrow> world" where
  "browser net =
     \<lparr>window_defined = True,
      localStorage = Map.empty,
      quota_exceeded = False,
      clock = 1793700000000,
      network = net,
      requests = []\<rparr>"

definition day_feed_url :: string where
  "day_feed_url = ''https://earthquake.usgs.gov/earthquakes/feed/v1.0/summary/all_day.geojson''"

definition week_feed_url :: string where
  "week_feed_url = ''https://earthquake.usgs.gov/earthquakes/feed/v1.0/summary/all_week.geojson''"

definition archive_url :: string where
  "archive_url = ''https://earthquake.usgs.gov/fdsnws/event/1/query?format=geojson&starttime=2026-08-05&endtime=2026-11-03&minmagnitude=4&minlatitude=25&maxlatitude=40&minlongitude=44&maxlongitude=63&orderby=time&limit=500''"

definition tehran :: Earthquake where
  "tehran = quake ''us1'' 51.4 35.7 5"

definition tokyo :: Earthquake where
  "tokyo = quake ''us2'' 139.7 35.7 6"

definition shiraz :: Earthquake where
  "shiraz = quake ''us3'' 52.5 29.6 1"

definition corner :: Earthquake where
  "corner = quake ''us4'' 44 25 2"

definition day_feed :: "string \<Rightarrow> int \<Rightarrow> nat \<times> fetch_outcome" where
  "day_feed u t =
     (if u = day_feed_url then (120, respond (payload 4 [tehran, tokyo, shiraz, corner]))
      else offline u t)"

definition day_query :: FetchEarthquakesParams where
  "day_query =
     \<lparr>timeRange = ''day'', minMagnitude = 2,
      startDate = Some ''2026-08-05'', endDate = Some ''2026-11-03''\<rparr>"

definition archive_query :: FetchEarthquakesParams where
  "archive_query =
     \<lparr>timeRange = ''custom'', minMagnitude = 4,
      startDate = Some ''2026-08-05'', endDate = Some ''2026-11-03''\<rparr>"

text \<open>An archive that answers the example's historical query with one record and a count of 7.\<close>

definition miscounting_archive :: "string \<Rightarrow> int \<Rightarrow> nat \<times> fetch_outcome" where
  "miscounting_archive u t =
     (if u = archive_url then (300, respond (payload 7 [tehran])) else offline u t)"

text \<open>A record without a geometry, and one without a magnitude.\<close>

definition no_geometry :: Earthquake where
  "no_geometry =
     \<lparr>feature_id = ''us5'',
      properties = Some \<lparr>mag = Num 5, place = ''somewhere'', time = 1793000000000\<rparr>,
      geometry = None\<rparr>"

definition no_magnitude :: Earthquake where
  "no_magnitude =
     \<lparr>feature_id = ''us6'',
      properties = Some \<lparr>mag = Undefined, place = ''somewhere'', time = 1793000000000\<rparr>,
      geometry = Some \<lparr>coordinates = Some [Num 51.4, Num 35.7, Num 10]\<rparr>\<rparr>"

definition broken_day_feed :: "string \<Rightarrow> int \<Rightarrow> nat \<times> fetch_outcome" where
  "broken_day_feed u t =
     (if u = day_feed_url then (120, respond (payload 2 [tehran, no_geometry])) else offline u t)"

definition unfiltered_archive :: "string \<Rightarrow> int \<Rightarrow> nat \<times> fetch_outcome" where
  "unfiltered_archive u t =
     (if u = archive_url then (300, respond (payload 2 [tehran, no_magnitude])) else offline u t)"

text \<open>
  An archive that answers the example's historical query with a server error, while the
  week feed works; and the same archive when the week feed cannot be reached.
\<close>

definition server_error :: fetch_outcome where
  "server_error =
     Resolves \<lparr>ok = False, resp_status = 500, statusText = ''Internal Server Error'',
               json = JsonFail (JsError ''SyntaxError'' ''Unexpected end of JSON input'')\<rparr>"

definition failing_archive :: "string \<Rightarrow> int \<Rightarrow> nat \<times> fetch_outcome" where
  "failing_archive u t =
     (if u = archive_url then (200, server_error)
      else if u = week_feed_url
      then (150, respond (payload 4 [tehran, tokyo, shiraz, corner]))
      else offline u t)"

definition failing_archive_offline :: "string \<Rightarrow> int \<Rightarrow> nat \<times> fetch_outcome" where
  "failing_archive_offline u t = (if u = archive_url then (200, server_error) else offline u t)"

text \<open>The page in real-time mode over the last day, and in historical mode.\<close>

definition day_filters :: "string \<Rightarrow> real \<Rightarrow> Filters" where
  "day_filters start m =
     \<lparr>f_timeRange = ''day'', f_minMagnitude = m, isHistorical = False,
      dateRange = \<lparr>dr_startDate = start, dr_endDate = ''2026-11-03''\<rparr>\<rparr>"

definition archive_filters :: Filters where
  "archive_filters =
     \<lparr>f_timeRange = ''day'', f_minMagnitude = 4, isHistorical = True,
      dateRange = \<lparr>dr_startDate = ''2026-08-05'', dr_endDate = ''2026-11-03''\<rparr>\<rparr>"



section \<open>Cache expiry\<close>










section \<open>Unfolding a call\<close>

lemma fetch_miss:
  "getCachedData w (cacheKey eng p) (cacheCategory p) = None \<Longrightarrow>
   fetchEarthquakes eng w p =
     (case tryBlock eng w p (cacheKey eng p) of
        (w', Inr d) \<Rightarrow> (w', Inr d)
      | (w', Inl err) \<Rightarrow>
          (case catchBlock p err of
             Throw e \<Rightarrow> (w', Inl e)
           | Fallback \<Rightarrow> fetchEarthquakes eng w' (weekParams p)))"
  by (subst fetchEarthquakes.simps) simp

lemma fetch_hit:
  "getCachedData w (cacheKey eng p) (cacheCategory p) = Some d \<Longrightarrow>
   fetchEarthquakes eng w p = (w, Inr d)"
  by (subst fetchEarthquakes.simps) simp

lemma tryBlock_resolved:
  assumes "network w (requestUrl eng (clock w) p) (clock w) = (lat, Resolves r)"
    and "lat < 30000" and "ok r" and "json r = JsonOk d"
  shows "tryBlock eng w p key =
           (case (if timeRange p \<noteq> ''custom'' then filterRealTime (minMagnitude p) d else Inr d) of
              Inl e \<Rightarrow> (requested eng w p lat, Inl e)
            | Inr d' \<Rightarrow> (cacheData (requested eng w p lat) key d' (cacheCategory p), Inr d'))"
  using assms by (simp add: tryBlock_def requested_def Let_def split: sum.splits)

section \<open>Facts about the examples\<close>

lemma whole_nts_values:
  "numberToString example_engine 2 = ''2''" "numberToString example_engine 4 = ''4''"
  "numberToString example_engine 25 = ''25''" "numberToString example_engine 40 = ''40''"
  "numberToString example_engine 44 = ''44''" "numberToString example_engine 63 = ''63''"
  by (simp_all add: example_engine_def whole_nts_def show_nat.simps digit_def)

lemma today_example: "toISODate 1793700000000 = ''2026-11-03''"
  by code_simp

lemma parse_example: "dateParse example_engine ''2026-11-03'' = Some 1793664000000"
  by code_simp

lemma day_query_url: "requestUrl example_engine t day_query = day_feed_url"
  by (simp add: requestUrl_def day_query_def day_feed_url_def)

lemma archive_query_url: "requestUrl example_engine 1793700000000 archive_query = archive_url"
  by (simp add: requestUrl_def archive_query_def archive_url_def validEndDate_def date_after_def
      parse_example whole_nts_values IRAN_BOUNDS_def)

lemma browser_miss: "getCachedData (browser net) key c = None"
  by (simp add: getCachedData_def browser_def)

lemma examples_wellFormed:
  "wellFormed tehran" "wellFormed tokyo" "wellFormed shiraz" "wellFormed corner"
  by (simp_all add: wellFormed_def longitude_def latitude_def magnitude_def coord_def quake_def
      tehran_def tokyo_def shiraz_def corner_def)

lemma examples_within:
  "withinBoundsAndMagnitude 2 tehran" "\<not> withinBoundsAndMagnitude 2 tokyo"
  "\<not> withinBoundsAndMagnitude 2 shiraz" "withinBoundsAndMagnitude 2 corner"
  by (simp_all add: withinBoundsAndMagnitude_def longitude_def latitude_def magnitude_def
      coord_def quake_def tehran_def tokyo_def shiraz_def corner_def)

section \<open>The real-time filter\<close>

lemma keepFeature_wellFormed:
  "wellFormed f \<Longrightarrow> keepFeature minMag f = Inr (withinBoundsAndMagnitude minMag f)"
  by (auto simp: wellFormed_def longitude_def latitude_def magnitude_def keepFeature_def
        withinBoundsAndMagnitude_def IRAN_BOUNDS_def js_ge_def js_le_def Let_def
      split: option.splits jsval.splits)

lemma filterFeatures_wellFormed:
  "list_all wellFormed fs \<Longrightarrow>
   filterFeatures minMag fs = Inr (filter (withinBoundsAndMagnitude minMag) fs)"
  by (induction fs) (simp_all add: keepFeature_wellFormed)

lemma filterRealTime_wellFormed:
  assumes "features d = Some fs" and "metadata d = Some md" and "list_all wellFormed fs"
  shows "filterRealTime minMag d =
           Inr (d\<lparr>features := Some (filter (withinBoundsAndMagnitude minMag) fs),
                   metadata := Some (md\<lparr>count :=
                     int (length (filter (withinBoundsAndMagnitude minMag) fs))\<rparr>)\<rparr>)"
  using assms by (simp add: filterRealTime_def filterFeatures_wellFormed)

text \<open>
  Claim C1. For a real-time query (any \<open>timeRange\<close> but \<open>custom\<close>) answered from
  the network with a payload of well-formed records, the call returns exactly the records
  whose longitude and latitude lie within the bounding box 44..63, 25..40 and whose
  magnitude is at least \<open>minMagnitude\<close>, in their order, and \<open>metadata.count\<close> is
  the number of the records returned.
\<close>

theorem realtime_postfilter_exact:
  assumes "timeRange p \<noteq> ''custom''"
    and "getCachedData w (cacheKey eng p) (cacheCategory p) = None"
    and "network w (requestUrl eng (clock w) p) (clock w) = (lat, Resolves r)"
    and "lat < 30000" and "ok r" and "json r = JsonOk d"
    and "features d = Some fs" and "metadata d = Some md" and "list_all wellFormed fs"
  shows "snd (fetchEarthquakes eng w p) =
           Inr (d\<lparr>features := Some (filter (withinBoundsAndMagnitude (minMagnitude p)) fs),
                   metadata := Some (md\<lparr>count :=
                     int (length (filter (withinBoundsAndMagnitude (minMagnitude p)) fs))\<rparr>)\<rparr>)"
proof -
  have "filterRealTime (minMagnitude p) d =
          Inr (d\<lparr>features := Some (filter (withinBoundsAndMagnitude (minMagnitude p)) fs),
                  metadata := Some (md\<lparr>count :=
                    int (length (filter (withinBoundsAndMagnitude (minMagnitude p)) fs))\<rparr>)\<rparr>)"
    using assms(7-9) by (rule filterRealTime_wellFormed)
  then show ?thesis
    using assms(1) by (simp add: fetch_miss [OF assms(2)] tryBlock_resolved [OF assms(3-6)])
qed

theorem realtime_postfilter_exact_witness:
  "snd (fetchEarthquakes example_engine (browser day_feed) day_query) = Inr (payload 2 [tehran, corner])"
proof -
  let ?fs = "[tehran, tokyo, shiraz, corner]"
  let ?r = "\<lparr>ok = True, resp_status = 200, statusText = ''OK'', json = JsonOk (payload 4 ?fs)\<rparr>"
  let ?md = "\<lparr>generated = 1793700000000, url = ''upstream'', title = ''USGS'',
              status = 200, api = ''1.10.3'', count = 4\<rparr>"
  have h1: "timeRange day_query \<noteq> ''custom''"
    by (simp add: day_query_def)
  have h2: "getCachedData (browser day_feed) (cacheKey example_engine day_query) (cacheCategory day_query)
              = None"
    by (rule browser_miss)
  have h3: "network (browser day_feed)
              (requestUrl example_engine (clock (browser day_feed)) day_query) (clock (browser day_feed))
              = (120, Resolves ?r)"
    by (simp add: day_query_url) (simp add: browser_def day_feed_def respond_def)
  have h4: "(120::nat) < 30000" and h5: "ok ?r" and h6: "json ?r = JsonOk (payload 4 ?fs)"
    by simp_all
  have h7: "features (payload 4 ?fs) = Some ?fs" and h8: "metadata (payload 4 ?fs) = Some ?md"
    by (simp_all add: payload_def)
  have h9: "list_all wellFormed ?fs"
    by (simp add: examples_wellFormed)
  have m: "minMagnitude day_query = 2"
    by (simp add: day_query_def)
  show ?thesis
    using realtime_postfilter_exact [OF h1 h2 h3 h4 h5 h6 h7 h8 h9]
    by (simp add: m examples_within payload_def)
qed

section \<open>Historical payloads\<close>


lemma tryBlock_requested_historical:
  assumes "timeRange p = ''custom''"
    and "network w (requestUrl eng (clock w) p) (clock w) = (lat, Resolves r)"
    and "lat < 30000" and "ok r" and "json r = JsonOk d"
  shows "tryBlock eng w p key = (cacheData (requested eng w p lat) key d ''historical'', Inr d)"
  using assms(1) by (simp add: tryBlock_resolved [OF assms(2-5)] cacheCategory_def)

text \<open>
  Claim C3, as amended. A historical query answered from the network returns the decoded
  payload as it is: no record is dropped, and \<open>metadata.count\<close> is the count the
  upstream sent (it is not recomputed). The payload is stored under the query's key.
\<close>

theorem historical_payload_unchanged:
  assumes "timeRange p = ''custom''"
    and "getCachedData w (cacheKey eng p) (cacheCategory p) = None"
    and "network w (requestUrl eng (clock w) p) (clock w) = (lat, Resolves r)"
    and "lat < 30000" and "ok r" and "json r = JsonOk d"
  shows "fetchEarthquakes eng w p =
           (cacheData (requested eng w p lat) (cacheKey eng p) d ''historical'', Inr d)"
  by (simp add: fetch_miss [OF assms(2)] tryBlock_requested_historical [OF assms(1,3-6)])

lemma archive_miscounting_answer:
  "network (browser miscounting_archive)
     (requestUrl example_engine (clock (browser miscounting_archive)) archive_query)
     (clock (browser miscounting_archive))
   = (300, Resolves \<lparr>ok = True, resp_status = 200, statusText = ''OK'',
                      json = JsonOk (payload 7 [tehran])\<rparr>)"
proof -
  have "clock (browser miscounting_archive) = 1793700000000"
    by (simp add: browser_def)
  then show ?thesis
    by (simp add: archive_query_url) (simp add: browser_def miscounting_archive_def respond_def)
qed

theorem historical_payload_unchanged_witness:
  "snd (fetchEarthquakes example_engine (browser miscounting_archive) archive_query)
     = Inr (payload 7 [tehran])"
proof -
  have h1: "timeRange archive_query = ''custom''"
    by (simp add: archive_query_def)
  have h2: "getCachedData (browser miscounting_archive) (cacheKey example_engine archive_query)
              (cacheCategory archive_query) = None"
    by (rule browser_miss)
  show ?thesis
    using historical_payload_unchanged [OF h1 h2 archive_miscounting_answer]
    by simp
qed

text \<open>
  Claim C3 as stated fails: an upstream payload with one record and a count of 7 is
  returned with the count 7.
\<close>

theorem historical_count_not_recomputed:
  "snd (fetchEarthquakes example_engine (browser miscounting_archive) archive_query)
     = Inr (payload 7 [tehran])
   \<and> map_option count (metadata (payload 7 [tehran])) = Some 7
   \<and> map_option length (features (payload 7 [tehran])) = Some 1"
proof -
  have h2: "getCachedData (browser miscounting_archive) (cacheKey example_engine archive_query)
              (cacheCategory archive_query) = None"
    by (rule browser_miss)
  have "tryBlock example_engine (browser miscounting_archive) archive_query
          (cacheKey example_engine archive_query)
        = (cacheData (requested example_engine (browser miscounting_archive) archive_query 300)
             (cacheKey example_engine archive_query) (payload 7 [tehran]) ''historical'',
           Inr (payload 7 [tehran]))"
    by (rule tryBlock_requested_historical [OF _ archive_miscounting_answer])
       (simp_all add: archive_query_def)
  then show ?thesis
    by (simp add: fetch_miss [OF h2] payload_def)
qed


section \<open>Records with missing parts\<close>

lemma keepFeature_lacksValue: "lacksValue minMag f \<Longrightarrow> keepFeature minMag f = Inr False"
  by (auto simp: lacksValue_def readable_def longitude_def latitude_def keepFeature_def
        IRAN_BOUNDS_def js_ge_def js_le_def Let_def
      split: option.splits jsval.splits)

lemma filterFeatures_dropped:
  "keepFeature minMag f = Inr False \<Longrightarrow>
   filterFeatures minMag (xs @ f # ys) = filterFeatures minMag (xs @ ys)"
  by (induction xs) (simp_all split: sum.splits)

lemma filterRealTime_features_cong:
  "filterFeatures minMag fs = filterFeatures minMag gs \<Longrightarrow>
   filterRealTime minMag (d\<lparr>features := Some fs\<rparr>) = filterRealTime minMag (d\<lparr>features := Some gs\<rparr>)"
  by (simp add: filterRealTime_def split: sum.splits option.splits)

text \<open>
  Claim C7, as amended. In a real-time payload, a record that has a geometry with a
  coordinates array and a properties object, but no number for its longitude or latitude or
  no magnitude (absent, or \<open>null\<close> while \<open>minMagnitude\<close> is positive), is dropped:
  the filter and the normalised collection are what they are for the payload without that
  record, and when the other records are well-formed the result is exactly those of them
  that pass the filter.
\<close>

theorem record_lacking_value_dropped:
  assumes "lacksValue minMag f"
  shows "filterFeatures minMag (xs @ f # ys) = filterFeatures minMag (xs @ ys)
       \<and> filterRealTime minMag (d\<lparr>features := Some (xs @ f # ys)\<rparr>)
           = filterRealTime minMag (d\<lparr>features := Some (xs @ ys)\<rparr>)
       \<and> (list_all wellFormed (xs @ ys) \<longrightarrow>
            filterFeatures minMag (xs @ f # ys)
              = Inr (filter (withinBoundsAndMagnitude minMag) (xs @ ys)))"
proof -
  have "keepFeature minMag f = Inr False"
    using assms by (rule keepFeature_lacksValue)
  then have eq: "filterFeatures minMag (xs @ f # ys) = filterFeatures minMag (xs @ ys)"
    by (rule filterFeatures_dropped)
  then have "filterRealTime minMag (d\<lparr>features := Some (xs @ f # ys)\<rparr>)
               = filterRealTime minMag (d\<lparr>features := Some (xs @ ys)\<rparr>)"
    by (rule filterRealTime_features_cong)
  moreover have "list_all wellFormed (xs @ ys) \<longrightarrow>
      filterFeatures minMag (xs @ f # ys) = Inr (filter (withinBoundsAndMagnitude minMag) (xs @ ys))"
    using eq filterFeatures_wellFormed [of "xs @ ys" minMag] by simp
  ultimately show ?thesis
    using eq by simp
qed

theorem record_lacking_value_dropped_witness:
  "lacksValue 2 no_magnitude
   \<and> filterFeatures 2 [tehran, no_magnitude, corner] = Inr [tehran, corner]"
proof -
  have l: "lacksValue 2 no_magnitude"
    by (simp add: lacksValue_def readable_def no_magnitude_def)
  have w: "list_all wellFormed ([tehran] @ [corner])"
    by (simp add: examples_wellFormed)
  show ?thesis
    using record_lacking_value_dropped [OF l, of "[tehran]" "[corner]" "payload 3 []"] w l
    by (simp add: keepFeature_wellFormed examples_wellFormed examples_within)
qed

lemma includes_examples:
  "\<not> str_includes ''Cannot read properties of undefined (reading coordinates)'' ''Failed to fetch''"
  "\<not> str_includes ''Cannot read properties of undefined (reading coordinates)'' ''400''"
  by simp_all

text \<open>
  Claim C7 as stated fails: a real-time payload with one record that has no geometry makes
  the whole call fail, and a historical payload keeps a record that has no magnitude.
\<close>

theorem malformed_record_not_dropped:
  "snd (fetchEarthquakes example_engine (browser broken_day_feed) day_query)
     = Inl (Error (''Failed to fetch earthquake data: ''
                   @ ''Cannot read properties of undefined (reading coordinates)''))
   \<and> snd (fetchEarthquakes example_engine (browser unfiltered_archive) archive_query)
     = Inr (payload 2 [tehran, no_magnitude])"
proof -
  have miss: "\<And>net key c. getCachedData (browser net) key c = None"
    by (rule browser_miss)
  have a1: "network (browser broken_day_feed)
              (requestUrl example_engine (clock (browser broken_day_feed)) day_query)
              (clock (browser broken_day_feed))
            = (120, Resolves \<lparr>ok = True, resp_status = 200, statusText = ''OK'',
                               json = JsonOk (payload 2 [tehran, no_geometry])\<rparr>)"
    by (simp add: day_query_url) (simp add: browser_def broken_day_feed_def respond_def)
  have k1: "keepFeature 2 tehran = Inr True"
    using keepFeature_wellFormed [of tehran 2] by (simp add: examples_wellFormed examples_within)
  have k2: "keepFeature 2 no_geometry
              = Inl (TypeError ''Cannot read properties of undefined (reading coordinates)'')"
    by (simp add: keepFeature_def no_geometry_def)
  have f1: "filterRealTime 2 (payload 2 [tehran, no_geometry])
              = Inl (TypeError ''Cannot read properties of undefined (reading coordinates)'')"
    by (simp add: filterRealTime_def payload_def k1 k2)
  have t1: "tryBlock example_engine (browser broken_day_feed) day_query (cacheKey example_engine day_query)
              = (requested example_engine (browser broken_day_feed) day_query 120,
                 Inl (TypeError ''Cannot read properties of undefined (reading coordinates)''))"
  proof -
    have "timeRange day_query \<noteq> ''custom''" and "minMagnitude day_query = 2"
      by (simp_all add: day_query_def)
    then show ?thesis
      using f1 by (simp add: tryBlock_resolved [OF a1])
  qed
  have c1: "catchBlock day_query
              (TypeError ''Cannot read properties of undefined (reading coordinates)'')
            = Throw (Error (''Failed to fetch earthquake data: ''
                   @ ''Cannot read properties of undefined (reading coordinates)''))"
    unfolding catchBlock_def TypeError_def
    by (simp only: js_error.sel includes_examples) (simp add: day_query_def)
  have r1: "snd (fetchEarthquakes example_engine (browser broken_day_feed) day_query)
     = Inl (Error (''Failed to fetch earthquake data: ''
                   @ ''Cannot read properties of undefined (reading coordinates)''))"
    by (simp add: fetch_miss [OF miss] t1 c1)
  have a2: "network (browser unfiltered_archive)
              (requestUrl example_engine (clock (browser unfiltered_archive)) archive_query)
              (clock (browser unfiltered_archive))
            = (300, Resolves \<lparr>ok = True, resp_status = 200, statusText = ''OK'',
                               json = JsonOk (payload 2 [tehran, no_magnitude])\<rparr>)"
  proof -
    have "clock (browser unfiltered_archive) = 1793700000000"
      by (simp add: browser_def)
    then show ?thesis
      by (simp add: archive_query_url) (simp add: browser_def unfiltered_archive_def respond_def)
  qed
  have t2: "tryBlock example_engine (browser unfiltered_archive) archive_query
              (cacheKey example_engine archive_query)
            = (cacheData (requested example_engine (browser unfiltered_archive) archive_query 300)
                 (cacheKey example_engine archive_query) (payload 2 [tehran, no_magnitude])
                 ''historical'',
               Inr (payload 2 [tehran, no_magnitude]))"
    by (rule tryBlock_requested_historical [OF _ a2]) (simp_all add: archive_query_def)
  have r2: "snd (fetchEarthquakes example_engine (browser unfiltered_archive) archive_query)
              = Inr (payload 2 [tehran, no_magnitude])"
    by (simp add: fetch_miss [OF miss] t2)
  show ?thesis
    using r1 r2 by simp
qed

section \<open>What a call changes\<close>

lemma cacheData_frame:
  "requests (cacheData w key d c) = requests w"
  "clock (cacheData w key d c) = clock w"
  "window_defined (cacheData w key d c) = window_defined w"
  "quota_exceeded (cacheData w key d c) = quota_exceeded w"
  "network (cacheData w key d c) = network w"
  "k \<noteq> key \<Longrightarrow> localStorage (cacheData w key d c) k = localStorage w k"
  by (simp_all add: cacheData_def)

lemma cacheData_stored:
  "window_defined w \<Longrightarrow> \<not> quota_exceeded w \<Longrightarrow>
   localStorage (cacheData w key d c) key = Some (CacheItem d (clock w))"
  by (simp add: cacheData_def)

lemma tryBlock_cases:
  obtains (failed) lat e where "tryBlock eng w p key = (requested eng w p lat, Inl e)"
  | (stored) lat d where
      "tryBlock eng w p key = (cacheData (requested eng w p lat) key d (cacheCategory p), Inr d)"
proof -
  let ?lat = "fst (network w (requestUrl eng (clock w) p) (clock w))"
  have "(\<exists>e. tryBlock eng w p key = (requested eng w p ?lat, Inl e))
      \<or> (\<exists>d. tryBlock eng w p key
                = (cacheData (requested eng w p ?lat) key d (cacheCategory p), Inr d))"
    by (simp add: tryBlock_def requested_def Let_def
        split: fetch_outcome.splits body.splits sum.splits)
  then show thesis
    using failed stored by blast
qed

lemma requested_frame:
  "requests (requested eng w p lat) = requests w @ [requestUrl eng (clock w) p]"
  "clock w \<le> clock (requested eng w p lat)"
  "window_defined (requested eng w p lat) = window_defined w"
  "quota_exceeded (requested eng w p lat) = quota_exceeded w"
  "network (requested eng w p lat) = network w"
  "localStorage (requested eng w p lat) = localStorage w"
  by (simp_all add: requested_def)

lemma tryBlock_frame:
  "requests (fst (tryBlock eng w p key)) = requests w @ [requestUrl eng (clock w) p]"
  "clock w \<le> clock (fst (tryBlock eng w p key))"
  "window_defined (fst (tryBlock eng w p key)) = window_defined w"
  "quota_exceeded (fst (tryBlock eng w p key)) = quota_exceeded w"
  "k \<noteq> key \<Longrightarrow> localStorage (fst (tryBlock eng w p key)) k = localStorage w k"
  by (cases rule: tryBlock_cases [of eng w p key]; simp add: cacheData_frame requested_frame)+

lemma tryBlock_failed_storage:
  "tryBlock eng w p key = (w', Inl e) \<Longrightarrow> localStorage w' = localStorage w"
  by (cases rule: tryBlock_cases [of eng w p key]) (auto simp: requested_frame)

lemma tryBlock_stored:
  assumes "tryBlock eng w p key = (w', Inr d)" and "window_defined w" and "\<not> quota_exceeded w"
  shows "\<exists>ts. localStorage w' key = Some (CacheItem d ts)"
  using assms
  by (cases rule: tryBlock_cases [of eng w p key])
     (auto simp: requested_frame cacheData_stored)

lemma getCachedData_Some_stored:
  "getCachedData w key c = Some d \<Longrightarrow> \<exists>ts. localStorage w key = Some (CacheItem d ts)"
  by (auto simp: getCachedData_def split: if_splits option.splits cache_item.splits)

lemma getCachedData_stays_None:
  assumes "getCachedData w key c = None"
    and "window_defined w' = window_defined w" and "localStorage w' key = localStorage w key"
    and "clock w \<le> clock w'"
  shows "getCachedData w' key c = None"
  using assms by (auto simp: getCachedData_def split: if_splits option.splits cache_item.splits)

lemma catchBlock_realtime:
  "timeRange p \<noteq> ''custom'' \<Longrightarrow> \<exists>e. catchBlock p err = Throw e"
  by (cases "catchBlock p err") (auto dest: catchBlock_Fallback)

lemma catchBlock_Fallback_iff:
  "catchBlock p err = Fallback \<longleftrightarrow>
     timeRange p = ''custom'' \<and> name err \<noteq> ''AbortError''
     \<and> \<not> str_includes (message err) ''Failed to fetch'' \<and> \<not> str_includes (message err) ''400''"
  by (simp add: catchBlock_def)

text \<open>A call that is not historical makes one attempt at most.\<close>

lemma fetch_realtime_cases:
  assumes "timeRange p \<noteq> ''custom''"
  obtains (hit) d where "getCachedData w (cacheKey eng p) (cacheCategory p) = Some d"
      and "fetchEarthquakes eng w p = (w, Inr d)"
  | (fetched) w' d where "getCachedData w (cacheKey eng p) (cacheCategory p) = None"
      and "tryBlock eng w p (cacheKey eng p) = (w', Inr d)"
      and "fetchEarthquakes eng w p = (w', Inr d)"
  | (thrown) w' err e where "getCachedData w (cacheKey eng p) (cacheCategory p) = None"
      and "tryBlock eng w p (cacheKey eng p) = (w', Inl err)"
      and "catchBlock p err = Throw e"
      and "fetchEarthquakes eng w p = (w', Inl e)"
proof (cases "getCachedData w (cacheKey eng p) (cacheCategory p)")
  case (Some d)
  then show thesis
    using hit fetch_hit by blast
next
  case None
  obtain w' r where t: "tryBlock eng w p (cacheKey eng p) = (w', r)"
    by (cases "tryBlock eng w p (cacheKey eng p)")
  show thesis
  proof (cases r)
    case (Inr d)
    then show thesis
      using fetched [of w' d] None t by (simp add: fetch_miss)
  next
    case (Inl err)
    obtain e where "catchBlock p err = Throw e"
      using catchBlock_realtime [OF assms] by blast
    then show thesis
      using thrown [of w' err e] None t Inl by (simp add: fetch_miss)
  qed
qed

lemma weekParams_sel:
  "timeRange (weekParams p) = ''week''" "minMagnitude (weekParams p) = minMagnitude p"
  "startDate (weekParams p) = None" "endDate (weekParams p) = None"
  "timeRange (weekParams p) \<noteq> ''custom''"
  by (simp_all add: weekParams_def)

lemma weekParams_url:
  "requestUrl eng t (weekParams p)
     = ''https://earthquake.usgs.gov/earthquakes/feed/v1.0/summary/all_week.geojson''"
  by (simp add: requestUrl_def weekParams_def)

lemma weekParams_key:
  "cacheKey eng (weekParams p) = ''earthquake_data_week_'' @ numberToString eng (minMagnitude p) @ ''___iran''"
  by (simp add: cacheKey_def weekParams_def)

lemma custom_key_not_week_key:
  "timeRange p = ''custom'' \<Longrightarrow> cacheKey eng p \<noteq> cacheKey eng (weekParams p)"
  by (simp add: cacheKey_def weekParams_def)

lemma fetch_fallback:
  assumes "getCachedData w (cacheKey eng p) (cacheCategory p) = None"
    and "tryBlock eng w p (cacheKey eng p) = (w1, Inl err)"
    and "catchBlock p err = Fallback"
  shows "fetchEarthquakes eng w p = fetchEarthquakes eng w1 (weekParams p)"
  using assms by (simp add: fetch_miss)

lemma fetch_thrown:
  assumes "getCachedData w (cacheKey eng p) (cacheCategory p) = None"
    and "tryBlock eng w p (cacheKey eng p) = (w1, Inl err)"
    and "catchBlock p err = Throw e"
  shows "fetchEarthquakes eng w p = (w1, Inl e)"
  using assms by (simp add: fetch_miss)

text \<open>The world after a call that is not historical.\<close>

lemma fetch_realtime_frame:
  assumes "timeRange p \<noteq> ''custom''"
  shows "requests (fst (fetchEarthquakes eng w p)) = requests w
         \<or> requests (fst (fetchEarthquakes eng w p)) = requests w @ [requestUrl eng (clock w) p]"
    and "clock w \<le> clock (fst (fetchEarthquakes eng w p))"
    and "window_defined (fst (fetchEarthquakes eng w p)) = window_defined w"
    and "k \<noteq> cacheKey eng p \<Longrightarrow> localStorage (fst (fetchEarthquakes eng w p)) k = localStorage w k"
proof -
  let ?t = "tryBlock eng w p (cacheKey eng p)"
  have "fst (fetchEarthquakes eng w p) = w \<or> fst (fetchEarthquakes eng w p) = fst ?t"
    by (cases rule: fetch_realtime_cases [OF assms, where w = w and eng = eng]) simp_all
  then show "requests (fst (fetchEarthquakes eng w p)) = requests w
         \<or> requests (fst (fetchEarthquakes eng w p)) = requests w @ [requestUrl eng (clock w) p]"
    and "clock w \<le> clock (fst (fetchEarthquakes eng w p))"
    and "window_defined (fst (fetchEarthquakes eng w p)) = window_defined w"
    and "k \<noteq> cacheKey eng p \<Longrightarrow> localStorage (fst (fetchEarthquakes eng w p)) k = localStorage w k"
    using tryBlock_frame [where eng = eng and w = w and p = p and key = "cacheKey eng p"] by auto
qed


section \<open>The fallback to the week feed\<close>

lemma fetch_requests:
  "requests (fst (fetchEarthquakes eng w p)) = requests w
   \<or> requests (fst (fetchEarthquakes eng w p)) = requests w @ [requestUrl eng (clock w) p]
   \<or> (timeRange p = ''custom'' \<and>
       requests (fst (fetchEarthquakes eng w p))
         = requests w @ [requestUrl eng (clock w) p,
             ''https://earthquake.usgs.gov/earthquakes/feed/v1.0/summary/all_week.geojson''])"
proof (cases "timeRange p = ''custom''")
  case False
  then show ?thesis
    using fetch_realtime_frame(1) [of p eng w] by blast
next
  case True
  show ?thesis
  proof (cases "getCachedData w (cacheKey eng p) (cacheCategory p)")
    case (Some d)
    then show ?thesis
      by (simp add: fetch_hit)
  next
    case None
    obtain w1 r where t: "tryBlock eng w p (cacheKey eng p) = (w1, r)"
      by (cases "tryBlock eng w p (cacheKey eng p)")
    have r1: "requests w1 = requests w @ [requestUrl eng (clock w) p]"
      using tryBlock_frame(1) [of eng w p "cacheKey eng p"] t by simp
    show ?thesis
    proof (cases r)
      case (Inr d)
      then show ?thesis
        using None t r1 by (simp add: fetch_miss)
    next
      case (Inl err)
      show ?thesis
      proof (cases "catchBlock p err")
        case (Throw e)
        then show ?thesis
          using None t Inl r1 by (simp add: fetch_miss)
      next
        case Fallback
        have "fetchEarthquakes eng w p = fetchEarthquakes eng w1 (weekParams p)"
          using None t Inl Fallback by (simp add: fetch_miss)
        then show ?thesis
          using fetch_realtime_frame(1) [OF weekParams_sel(5) [of p], where w = w1 and eng = eng]
            r1 True
          by (auto simp: weekParams_url)
      qed
    qed
  qed
qed

text \<open>
  Claim C2, as amended. A historical call whose attempt fails is retried, once, as a call
  for the week feed with the same \<open>minMagnitude\<close> and no dates, exactly when the error
  is not a timeout and its message contains neither "Failed to fetch" nor "400"; then the
  only request after the failed one is at most one request of the week feed. With any
  other error (a network failure reported as "Failed to fetch" among them) the call
  throws after its one request. A call that is not historical makes one request at most,
  and its \<open>catch\<close> never chooses the fallback; no call makes more than two requests.
\<close>

theorem fallback_once_for_other_errors:
  "(timeRange p \<noteq> ''custom'' \<longrightarrow>
      requests (fst (fetchEarthquakes eng w p)) = requests w
      \<or> requests (fst (fetchEarthquakes eng w p)) = requests w @ [requestUrl eng (clock w) p])
   \<and> (timeRange p = ''custom'' \<and> getCachedData w (cacheKey eng p) (cacheCategory p) = None
        \<and> tryBlock eng w p (cacheKey eng p) = (w1, Inl err) \<longrightarrow>
       (if name err \<noteq> ''AbortError'' \<and> \<not> str_includes (message err) ''Failed to fetch''
           \<and> \<not> str_includes (message err) ''400''
        then fetchEarthquakes eng w p
               = fetchEarthquakes eng w1
                   \<lparr>timeRange = ''week'', minMagnitude = minMagnitude p,
                    startDate = None, endDate = None\<rparr>
             \<and> (requests (fst (fetchEarthquakes eng w p))
                   = requests w @ [requestUrl eng (clock w) p]
                 \<or> requests (fst (fetchEarthquakes eng w p))
                   = requests w @ [requestUrl eng (clock w) p,
                       ''https://earthquake.usgs.gov/earthquakes/feed/v1.0/summary/all_week.geojson''])
        else (\<exists>e. fetchEarthquakes eng w p = (w1, Inl e))
             \<and> requests w1 = requests w @ [requestUrl eng (clock w) p]))
   \<and> length (requests (fst (fetchEarthquakes eng w p))) \<le> length (requests w) + 2
   \<and> (timeRange p \<noteq> ''custom'' \<longrightarrow> catchBlock p err \<noteq> Fallback)"
proof (intro conjI impI)
  assume "timeRange p \<noteq> ''custom''"
  then show "catchBlock p err \<noteq> Fallback"
    using catchBlock_Fallback by blast
next
  assume "timeRange p \<noteq> ''custom''"
  then show "requests (fst (fetchEarthquakes eng w p)) = requests w
      \<or> requests (fst (fetchEarthquakes eng w p)) = requests w @ [requestUrl eng (clock w) p]"
    by (rule fetch_realtime_frame(1))
next
  show "length (requests (fst (fetchEarthquakes eng w p))) \<le> length (requests w) + 2"
    using fetch_requests [of eng w p] by auto
next
  assume a: "timeRange p = ''custom'' \<and> getCachedData w (cacheKey eng p) (cacheCategory p) = None
        \<and> tryBlock eng w p (cacheKey eng p) = (w1, Inl err)"
  then have r1: "requests w1 = requests w @ [requestUrl eng (clock w) p]"
    using tryBlock_frame(1) [of eng w p "cacheKey eng p"] by simp
  show "if name err \<noteq> ''AbortError'' \<and> \<not> str_includes (message err) ''Failed to fetch''
           \<and> \<not> str_includes (message err) ''400''
        then fetchEarthquakes eng w p
               = fetchEarthquakes eng w1
                   \<lparr>timeRange = ''week'', minMagnitude = minMagnitude p,
                    startDate = None, endDate = None\<rparr>
             \<and> (requests (fst (fetchEarthquakes eng w p))
                   = requests w @ [requestUrl eng (clock w) p]
                 \<or> requests (fst (fetchEarthquakes eng w p))
                   = requests w @ [requestUrl eng (clock w) p,
                       ''https://earthquake.usgs.gov/earthquakes/feed/v1.0/summary/all_week.geojson''])
        else (\<exists>e. fetchEarthquakes eng w p = (w1, Inl e))
             \<and> requests w1 = requests w @ [requestUrl eng (clock w) p]"
  proof (cases "catchBlock p err")
    case Fallback
    then have c: "name err \<noteq> ''AbortError'' \<and> \<not> str_includes (message err) ''Failed to fetch''
           \<and> \<not> str_includes (message err) ''400''"
      by (simp add: catchBlock_Fallback_iff)
    have f: "fetchEarthquakes eng w p = fetchEarthquakes eng w1 (weekParams p)"
      using a Fallback by (simp add: fetch_fallback)
    have "requests (fst (fetchEarthquakes eng w1 (weekParams p))) = requests w1
      \<or> requests (fst (fetchEarthquakes eng w1 (weekParams p)))
          = requests w1 @ [requestUrl eng (clock w1) (weekParams p)]"
      by (rule fetch_realtime_frame(1) [OF weekParams_sel(5)])
    then show ?thesis
      using c f r1 by (auto simp: weekParams_url) (simp_all add: weekParams_def)
  next
    case (Throw e)
    then have c: "\<not> (name err \<noteq> ''AbortError'' \<and> \<not> str_includes (message err) ''Failed to fetch''
           \<and> \<not> str_includes (message err) ''400'')"
      using a catchBlock_Fallback_iff [of p err] by auto
    have "fetchEarthquakes eng w p = (w1, Inl e)"
      using a Throw by (simp add: fetch_thrown)
    then show ?thesis
      using c r1 by auto
  qed
qed


lemma tryBlock_not_ok:
  assumes "network w (requestUrl eng (clock w) p) (clock w) = (lat, Resolves r)"
    and "lat < 30000" and "\<not> ok r"
  shows "tryBlock eng w p key =
           (requested eng w p lat,
            Inl (Error (''Server responded with '' @ show_nat (resp_status r) @ '': ''
                        @ statusText r)))"
  using assms by (simp add: tryBlock_def requested_def Let_def)

lemma tryBlock_rejected:
  assumes "network w (requestUrl eng (clock w) p) (clock w) = (lat, Rejects e)"
    and "lat < 30000"
  shows "tryBlock eng w p key = (requested eng w p lat, Inl e)"
  using assms by (simp add: tryBlock_def requested_def Let_def)

text \<open>
  Claim C8, as amended. When a historical attempt fails with an error that leads to the
  fallback and the call for the week feed fails too, the error thrown to the caller is
  the one of the fallback call: what the \<open>catch\<close> makes of the week attempt's own
  failure. The error of the historical attempt is not thrown.
\<close>

theorem fallback_error_is_thrown:
  assumes "getCachedData w (cacheKey eng p) (cacheCategory p) = None"
    and "tryBlock eng w p (cacheKey eng p) = (w1, Inl err)"
    and "catchBlock p err = Fallback"
    and "snd (fetchEarthquakes eng w1 (weekParams p)) = Inl e2"
  shows "snd (fetchEarthquakes eng w p) = Inl e2
       \<and> (\<exists>w2 err2. tryBlock eng w1 (weekParams p) (cacheKey eng (weekParams p)) = (w2, Inl err2)
                      \<and> catchBlock (weekParams p) err2 = Throw e2)"
proof -
  have "fetchEarthquakes eng w p = fetchEarthquakes eng w1 (weekParams p)"
    using assms(1-3) by (rule fetch_fallback)
  moreover have "\<exists>w2 err2.
      tryBlock eng w1 (weekParams p) (cacheKey eng (weekParams p)) = (w2, Inl err2)
      \<and> catchBlock (weekParams p) err2 = Throw e2"
    using assms(4)
    by (cases rule: fetch_realtime_cases [OF weekParams_sel(5) [of p], where w = w1 and eng = eng])
       auto
  ultimately show ?thesis
    using assms(4) by simp
qed

text \<open>
  Claim C10. When a historical call misses the cache, its attempt fails with an error that
  leads to the fallback, and the call for the week feed succeeds, then the historical call
  returns the fallback's result; the only cache key whose entry may have changed is the
  week feed's key, which has empty date components; in a browser whose storage accepts
  writes that key holds the result; the historical query's own key holds what it held
  before, so the same historical call made next misses the cache again and requests the
  archive anew.
\<close>

theorem fallback_cached_under_week_key_only:
  assumes "getCachedData w (cacheKey eng p) (cacheCategory p) = None"
    and "tryBlock eng w p (cacheKey eng p) = (w1, Inl err)"
    and "catchBlock p err = Fallback"
    and "fetchEarthquakes eng w1 (weekParams p) = (w2, Inr d)"
  shows "fetchEarthquakes eng w p = (w2, Inr d)
       \<and> cacheKey eng (weekParams p) = ''earthquake_data_week_'' @ numberToString eng (minMagnitude p) @ ''___iran''
       \<and> cacheKey eng p \<noteq> cacheKey eng (weekParams p)
       \<and> (\<forall>k. k \<noteq> cacheKey eng (weekParams p) \<longrightarrow> localStorage w2 k = localStorage w k)
       \<and> (window_defined w \<and> \<not> quota_exceeded w \<longrightarrow>
            (\<exists>ts. localStorage w2 (cacheKey eng (weekParams p)) = Some (CacheItem d ts)))
       \<and> localStorage w2 (cacheKey eng p) = localStorage w (cacheKey eng p)
       \<and> getCachedData w2 (cacheKey eng p) (cacheCategory p) = None
       \<and> prefix (requests w2 @ [requestUrl eng (clock w2) p])
                 (requests (fst (fetchEarthquakes eng w2 p)))"
proof -
  let ?q = "weekParams p"
  have custom: "timeRange p = ''custom''"
    using assms(3) by (rule catchBlock_Fallback)
  have res: "fetchEarthquakes eng w p = (w2, Inr d)"
    using fetch_fallback [OF assms(1-3)] assms(4) by simp
  have keys: "cacheKey eng p \<noteq> cacheKey eng ?q"
    using custom by (rule custom_key_not_week_key)
  have w1: "localStorage w1 = localStorage w" "window_defined w1 = window_defined w"
      "quota_exceeded w1 = quota_exceeded w" "clock w \<le> clock w1"
    using tryBlock_failed_storage [OF assms(2)]
      tryBlock_frame(2,3,4) [where eng = eng and w = w and p = p and key = "cacheKey eng p"]
      assms(2)
    by simp_all
  have w2: "fst (fetchEarthquakes eng w1 ?q) = w2"
    using assms(4) by simp
  have frame: "\<And>k. k \<noteq> cacheKey eng ?q \<Longrightarrow> localStorage w2 k = localStorage w k"
    using fetch_realtime_frame(4) [OF weekParams_sel(5) [of p], where w = w1 and eng = eng]
      w1(1) w2 by simp
  have win: "window_defined w2 = window_defined w" and clk: "clock w \<le> clock w2"
    using fetch_realtime_frame(2,3) [OF weekParams_sel(5) [of p], where w = w1 and eng = eng]
      w1(2,4) w2 by simp_all
  have stored: "window_defined w \<and> \<not> quota_exceeded w \<longrightarrow>
      (\<exists>ts. localStorage w2 (cacheKey eng ?q) = Some (CacheItem d ts))"
  proof
    assume ok: "window_defined w \<and> \<not> quota_exceeded w"
    show "\<exists>ts. localStorage w2 (cacheKey eng ?q) = Some (CacheItem d ts)"
      using weekParams_sel(5) [of p]
    proof (cases rule: fetch_realtime_cases [where w = w1 and eng = eng])
      case (hit d')
      then show ?thesis
        using assms(4) getCachedData_Some_stored by auto
    next
      case (fetched w' d')
      then show ?thesis
        using assms(4) tryBlock_stored [of eng w1 ?q "cacheKey eng ?q" w' d'] ok w1(2,3) by auto
    next
      case (thrown w' err' e)
      then show ?thesis
        using assms(4) by simp
    qed
  qed
  have same: "localStorage w2 (cacheKey eng p) = localStorage w (cacheKey eng p)"
    using keys by (rule frame)
  have miss: "getCachedData w2 (cacheKey eng p) (cacheCategory p) = None"
    using assms(1) win same clk by (rule getCachedData_stays_None)
  have again: "prefix (requests w2 @ [requestUrl eng (clock w2) p])
                 (requests (fst (fetchEarthquakes eng w2 p)))"
  proof -
    obtain w3 r where t: "tryBlock eng w2 p (cacheKey eng p) = (w3, r)"
      by (cases "tryBlock eng w2 p (cacheKey eng p)")
    have r3: "requests w3 = requests w2 @ [requestUrl eng (clock w2) p]"
      using tryBlock_frame(1) [of eng w2 p "cacheKey eng p"] t by simp
    show ?thesis
    proof (cases r)
      case (Inr d')
      then show ?thesis
        using miss t r3 by (simp add: fetch_miss)
    next
      case (Inl err')
      show ?thesis
      proof (cases "catchBlock p err'")
        case (Throw e)
        then show ?thesis
          using miss t Inl r3 by (simp add: fetch_miss)
      next
        case Fallback
        have "fetchEarthquakes eng w2 p = fetchEarthquakes eng w3 ?q"
          using miss t Inl Fallback by (simp add: fetch_miss)
        then show ?thesis
          using fetch_realtime_frame(1) [OF weekParams_sel(5) [of p], where w = w3 and eng = eng]
            r3
          by auto
      qed
    qed
  qed
  show ?thesis
    using res keys frame stored same miss again by (simp add: weekParams_key)
qed



section \<open>The examples of a failing archive\<close>

lemma browser_sel:
  "clock (browser net) = 1793700000000" "network (browser net) = net"
  "requests (browser net) = []" "localStorage (browser net) = Map.empty"
  "window_defined (browser net)" "\<not> quota_exceeded (browser net)"
  by (simp_all add: browser_def)

lemma archive_query_sel:
  "timeRange archive_query = ''custom''" "minMagnitude archive_query = 4"
  by (simp_all add: archive_query_def)

lemma archive_query_request:
  "requestUrl example_engine (clock (browser net)) archive_query = archive_url"
  by (simp add: browser_sel archive_query_url)

lemma archive_query_key:
  "cacheKey example_engine archive_query = ''earthquake_data_custom_4_2026-08-05_2026-11-03_iran''"
  by (simp add: cacheKey_def archive_query_def whole_nts_values)

lemma show_nat_500: "show_nat 500 = ''500''"
  by (simp add: show_nat.simps digit_def)

lemma server_error_attempt:
  assumes "net archive_url 1793700000000 = (200, server_error)"
  shows "tryBlock example_engine (browser net) archive_query key
           = (requested example_engine (browser net) archive_query 200,
              Inl (Error ''Server responded with 500: Internal Server Error''))"
proof -
  let ?r = "\<lparr>ok = False, resp_status = 500, statusText = ''Internal Server Error'',
             json = JsonFail (JsError ''SyntaxError'' ''Unexpected end of JSON input'')\<rparr>"
  have "network (browser net) (requestUrl example_engine (clock (browser net)) archive_query)
          (clock (browser net)) = (200, Resolves ?r)"
    using assms by (simp add: archive_query_request) (simp add: browser_sel server_error_def)
  then have "tryBlock example_engine (browser net) archive_query key
           = (requested example_engine (browser net) archive_query 200,
              Inl (Error (''Server responded with '' @ show_nat (resp_status ?r) @ '': ''
                        @ statusText ?r)))"
    by (rule tryBlock_not_ok) simp_all
  then show ?thesis
    by (simp add: show_nat_500)
qed

lemma server_error_falls_back:
  "catchBlock archive_query (Error ''Server responded with 500: Internal Server Error'')
     = Fallback"
  by (simp add: catchBlock_Fallback_iff archive_query_sel Error_def)

lemma failed_to_fetch_thrown:
  "catchBlock p (TypeError ''Failed to fetch'')
     = Throw (Error ''Network error. Please check your internet connection and try again.'')"
  by (simp add: catchBlock_def TypeError_def)

lemma after_attempt_sel:
  "clock (requested example_engine (browser net) archive_query 200) = 1793700000200"
  "network (requested example_engine (browser net) archive_query 200) = net"
  "requests (requested example_engine (browser net) archive_query 200) = [archive_url]"
  "localStorage (requested example_engine (browser net) archive_query 200) = Map.empty"
  "window_defined (requested example_engine (browser net) archive_query 200)"
  "\<not> quota_exceeded (requested example_engine (browser net) archive_query 200)"
  by (simp_all add: requested_def browser_sel archive_query_url)

lemma after_attempt_miss:
  "getCachedData (requested example_engine (browser net) archive_query 200) key c = None"
  by (simp add: getCachedData_def after_attempt_sel)

lemma examples_within_4:
  "withinBoundsAndMagnitude 4 tehran" "\<not> withinBoundsAndMagnitude 4 tokyo"
  "\<not> withinBoundsAndMagnitude 4 shiraz" "\<not> withinBoundsAndMagnitude 4 corner"
  by (simp_all add: withinBoundsAndMagnitude_def longitude_def latitude_def magnitude_def
      coord_def quake_def tehran_def tokyo_def shiraz_def corner_def)

text \<open>The archive fails and the week feed answers.\<close>

lemma recovered_fallback:
  "fetchEarthquakes example_engine (requested example_engine (browser failing_archive) archive_query 200)
     (weekParams archive_query)
   = (cacheData
        (requested example_engine (requested example_engine (browser failing_archive) archive_query 200)
           (weekParams archive_query) 150)
        (cacheKey example_engine (weekParams archive_query)) (payload 1 [tehran]) ''week'',
      Inr (payload 1 [tehran]))"
proof -
  let ?w1 = "requested example_engine (browser failing_archive) archive_query 200"
  let ?q = "weekParams archive_query"
  let ?fs = "[tehran, tokyo, shiraz, corner]"
  let ?r = "\<lparr>ok = True, resp_status = 200, statusText = ''OK'', json = JsonOk (payload 4 ?fs)\<rparr>"
  have n: "network ?w1 (requestUrl example_engine (clock ?w1) ?q) (clock ?w1) = (150, Resolves ?r)"
    by (simp add: weekParams_url after_attempt_sel)
       (simp add: failing_archive_def archive_url_def week_feed_url_def respond_def)
  have f: "filterRealTime 4 (payload 4 ?fs) = Inr (payload 1 [tehran])"
    using filterRealTime_wellFormed [of "payload 4 ?fs" ?fs _ 4]
    by (simp add: payload_def examples_wellFormed examples_within_4)
  have "tryBlock example_engine ?w1 ?q (cacheKey example_engine ?q)
          = (cacheData (requested example_engine ?w1 ?q 150) (cacheKey example_engine ?q)
               (payload 1 [tehran]) ''week'', Inr (payload 1 [tehran]))"
    using f by (simp add: tryBlock_resolved [OF n] weekParams_sel archive_query_sel cacheCategory_def)
  then show ?thesis
    by (simp add: fetch_miss [OF after_attempt_miss])
qed

text \<open>The archive fails and the week feed cannot be reached.\<close>

lemma outage_fallback:
  "fetchEarthquakes example_engine
     (requested example_engine (browser failing_archive_offline) archive_query 200)
     (weekParams archive_query)
   = (requested example_engine
        (requested example_engine (browser failing_archive_offline) archive_query 200)
        (weekParams archive_query) 20,
      Inl (Error ''Network error. Please check your internet connection and try again.''))"
proof -
  let ?w1 = "requested example_engine (browser failing_archive_offline) archive_query 200"
  let ?q = "weekParams archive_query"
  have n: "network ?w1 (requestUrl example_engine (clock ?w1) ?q) (clock ?w1)
             = (20, Rejects (TypeError ''Failed to fetch''))"
    by (simp add: weekParams_url after_attempt_sel)
       (simp add: failing_archive_offline_def archive_url_def offline_def)
  have "tryBlock example_engine ?w1 ?q (cacheKey example_engine ?q)
          = (requested example_engine ?w1 ?q 20, Inl (TypeError ''Failed to fetch''))"
    by (rule tryBlock_rejected [OF n]) simp
  then show ?thesis
    by (simp add: fetch_miss [OF after_attempt_miss] failed_to_fetch_thrown)
qed

theorem fallback_once_for_other_errors_witness:
  "snd (fetchEarthquakes example_engine (browser failing_archive) archive_query)
     = Inr (payload 1 [tehran])
   \<and> requests (fst (fetchEarthquakes example_engine (browser failing_archive) archive_query))
     = [archive_url, week_feed_url]
   \<and> length (requests (fst (fetchEarthquakes example_engine (browser day_feed) day_query))) \<le> 1"
proof -
  let ?w = "browser failing_archive"
  let ?w1 = "requested example_engine ?w archive_query 200"
  let ?err = "Error ''Server responded with 500: Internal Server Error''"
  have t: "tryBlock example_engine ?w archive_query (cacheKey example_engine archive_query) = (?w1, Inl ?err)"
    by (rule server_error_attempt) (simp add: failing_archive_def)
  have c: "name ?err \<noteq> ''AbortError'' \<and> \<not> str_includes (message ?err) ''Failed to fetch''
           \<and> \<not> str_includes (message ?err) ''400''"
    by (simp add: Error_def)
  have "fetchEarthquakes example_engine ?w archive_query
          = fetchEarthquakes example_engine ?w1
              \<lparr>timeRange = ''week'', minMagnitude = minMagnitude archive_query,
               startDate = None, endDate = None\<rparr>"
    using fallback_once_for_other_errors [of archive_query example_engine ?w ?w1 ?err]
      t c archive_query_sel(1) browser_miss [of failing_archive]
    by simp
  then have r: "fetchEarthquakes example_engine ?w archive_query
                  = fetchEarthquakes example_engine ?w1 (weekParams archive_query)"
    by (simp add: weekParams_def)
  have d: "timeRange day_query \<noteq> ''custom''"
    by (simp add: day_query_def)
  have "length (requests (fst (fetchEarthquakes example_engine (browser day_feed) day_query))) \<le> 1"
    using fallback_once_for_other_errors
            [where p = day_query and eng = example_engine and w = "browser day_feed"
               and ?w1.0 = "browser day_feed" and err = AbortError, THEN conjunct1] d
    by (auto simp: browser_sel)
  then show ?thesis
    by (simp add: r recovered_fallback cacheData_frame requested_frame browser_sel
        archive_query_url weekParams_url week_feed_url_def)
qed

text \<open>
  Claim C2 as stated fails: when the network is unreachable (the request is rejected with
  "Failed to fetch"), a historical call throws the network error after its one request.
\<close>

theorem network_error_not_retried:
  "snd (tryBlock example_engine (browser offline) archive_query (cacheKey example_engine archive_query))
     = Inl (TypeError ''Failed to fetch'')
   \<and> snd (fetchEarthquakes example_engine (browser offline) archive_query)
     = Inl (Error ''Network error. Please check your internet connection and try again.'')
   \<and> requests (fst (fetchEarthquakes example_engine (browser offline) archive_query)) = [archive_url]"
proof -
  let ?w = "browser offline"
  have n: "network ?w (requestUrl example_engine (clock ?w) archive_query) (clock ?w)
             = (20, Rejects (TypeError ''Failed to fetch''))"
    by (simp add: browser_sel offline_def)
  have t: "tryBlock example_engine ?w archive_query (cacheKey example_engine archive_query)
             = (requested example_engine ?w archive_query 20, Inl (TypeError ''Failed to fetch''))"
    by (rule tryBlock_rejected [OF n]) simp
  have "fetchEarthquakes example_engine ?w archive_query
          = (requested example_engine ?w archive_query 20,
             Inl (Error ''Network error. Please check your internet connection and try again.''))"
    by (simp add: fetch_miss [OF browser_miss] t failed_to_fetch_thrown)
  then show ?thesis
    using t by (simp add: requested_frame browser_sel archive_query_url)
qed

theorem fallback_error_is_thrown_witness:
  "snd (fetchEarthquakes example_engine (browser failing_archive_offline) archive_query)
     = Inl (Error ''Network error. Please check your internet connection and try again.'')"
proof -
  let ?w = "browser failing_archive_offline"
  have t: "tryBlock example_engine ?w archive_query (cacheKey example_engine archive_query)
             = (requested example_engine ?w archive_query 200,
                Inl (Error ''Server responded with 500: Internal Server Error''))"
    by (rule server_error_attempt) (simp add: failing_archive_offline_def)
  have e: "snd (fetchEarthquakes example_engine (requested example_engine ?w archive_query 200)
                  (weekParams archive_query))
             = Inl (Error ''Network error. Please check your internet connection and try again.'')"
    by (simp add: outage_fallback)
  show ?thesis
    using fallback_error_is_thrown [OF browser_miss t server_error_falls_back e] by simp
qed

text \<open>
  Claim C8 as stated fails: the archive answers with a server error, the week feed cannot
  be reached, and the caller gets the network error of the fallback, not the server error
  of the historical attempt.
\<close>

theorem original_error_not_surfaced:
  "snd (tryBlock example_engine (browser failing_archive_offline) archive_query
          (cacheKey example_engine archive_query))
     = Inl (Error ''Server responded with 500: Internal Server Error'')
   \<and> snd (fetchEarthquakes example_engine (browser failing_archive_offline) archive_query)
     = Inl (Error ''Network error. Please check your internet connection and try again.'')"
proof -
  let ?w = "browser failing_archive_offline"
  have t: "tryBlock example_engine ?w archive_query (cacheKey example_engine archive_query)
             = (requested example_engine ?w archive_query 200,
                Inl (Error ''Server responded with 500: Internal Server Error''))"
    by (rule server_error_attempt) (simp add: failing_archive_offline_def)
  have "fetchEarthquakes example_engine ?w archive_query
          = fetchEarthquakes example_engine (requested example_engine ?w archive_query 200)
              (weekParams archive_query)"
    using browser_miss t server_error_falls_back by (rule fetch_fallback)
  then show ?thesis
    using t by (simp add: outage_fallback)
qed

theorem fallback_cached_under_week_key_only_witness:
  "localStorage (fst (fetchEarthquakes example_engine (browser failing_archive) archive_query))
     ''earthquake_data_custom_4_2026-08-05_2026-11-03_iran'' = None
   \<and> localStorage (fst (fetchEarthquakes example_engine (browser failing_archive) archive_query))
     ''earthquake_data_week_4___iran'' = Some (CacheItem (payload 1 [tehran]) 1793700000350)"
proof -
  let ?w = "browser failing_archive"
  let ?w1 = "requested example_engine ?w archive_query 200"
  let ?w2 = "cacheData (requested example_engine ?w1 (weekParams archive_query) 150)
        (cacheKey example_engine (weekParams archive_query)) (payload 1 [tehran]) ''week''"
  have t: "tryBlock example_engine ?w archive_query (cacheKey example_engine archive_query)
             = (?w1, Inl (Error ''Server responded with 500: Internal Server Error''))"
    by (rule server_error_attempt) (simp add: failing_archive_def)
  have k: "cacheKey example_engine (weekParams archive_query) = ''earthquake_data_week_4___iran''"
    by (simp add: weekParams_key archive_query_sel whole_nts_values)
  have s: "localStorage ?w2 ''earthquake_data_week_4___iran''
             = Some (CacheItem (payload 1 [tehran]) 1793700000350)"
    by (simp add: k cacheData_def requested_def browser_sel)
  have "fetchEarthquakes example_engine ?w archive_query = (?w2, Inr (payload 1 [tehran]))
      \<and> localStorage ?w2 (cacheKey example_engine archive_query)
          = localStorage ?w (cacheKey example_engine archive_query)"
    using fallback_cached_under_week_key_only
            [OF browser_miss t server_error_falls_back recovered_fallback]
    by blast
  then show ?thesis
    using s by (simp add: archive_query_key browser_sel)
qed

section \<open>The cache key\<close>

lemma split_at_separator:
  "c \<notin> set xs \<Longrightarrow> c \<notin> set xs' \<Longrightarrow> xs @ c # ys = xs' @ c # ys' \<Longrightarrow> xs = xs' \<and> ys = ys'"
proof (induction xs arbitrary: xs')
  case Nil
  then show ?case by (cases xs') auto
next
  case (Cons x xs)
  then show ?case by (cases xs') auto
qed

lemma cacheKey_injective:
  assumes "plain (timeRange p)" and "plain (timeRange q)"
    and "plain (numberToString eng (minMagnitude p))" and "plain (numberToString eng (minMagnitude q))"
    and "plain (or_empty (startDate p))" and "plain (or_empty (startDate q))"
    and "cacheKey eng p = cacheKey eng q"
  shows "timeRange p = timeRange q \<and> numberToString eng (minMagnitude p) = numberToString eng (minMagnitude q)
       \<and> or_empty (startDate p) = or_empty (startDate q)
       \<and> or_empty (endDate p) = or_empty (endDate q)"
proof -
  let ?r = "\<lambda>p. numberToString eng (minMagnitude p) @ CHR ''_'' # or_empty (startDate p) @ CHR ''_''
                  # or_empty (endDate p) @ ''_iran''"
  have "timeRange p @ CHR ''_'' # ?r p = timeRange q @ CHR ''_'' # ?r q"
    using assms(7) by (simp add: cacheKey_def)
  then have 1: "timeRange p = timeRange q \<and> ?r p = ?r q"
    using assms(1,2) unfolding plain_def by (rule split_at_separator [rotated 2])
  let ?s = "\<lambda>p. or_empty (startDate p) @ CHR ''_'' # or_empty (endDate p) @ ''_iran''"
  have "numberToString eng (minMagnitude p) @ CHR ''_'' # ?s p = numberToString eng (minMagnitude q) @ CHR ''_'' # ?s q"
    using 1 by simp
  then have 2: "numberToString eng (minMagnitude p) = numberToString eng (minMagnitude q) \<and> ?s p = ?s q"
    using assms(3,4) unfolding plain_def by (rule split_at_separator [rotated 2])
  let ?t = "\<lambda>p. or_empty (endDate p) @ ''_iran''"
  have "or_empty (startDate p) @ CHR ''_'' # ?t p = or_empty (startDate q) @ CHR ''_'' # ?t q"
    using 2 by simp
  then have 3: "or_empty (startDate p) = or_empty (startDate q) \<and> ?t p = ?t q"
    using assms(5,6) unfolding plain_def by (rule split_at_separator [rotated 2])
  then have "or_empty (endDate p) = or_empty (endDate q)"
    by simp
  then show ?thesis
    using 1 2 3 by simp
qed

text \<open>
  Claim C9, as amended. The cache key is a function of the four parameters of the call:
  the time range (\<open>custom\<close> in historical mode), the minimum magnitude, and the start and
  end date, which the page passes in real-time mode too. So two filters in historical
  mode with the same dates and minimum magnitude have the same key whatever their time
  range selector; two filters in real-time mode have the same key when they agree on the
  time range, the minimum magnitude and the dates; two filters that differ only in a
  minimum magnitude that is rendered differently have different keys; and so have any two
  filters with differently rendered minimum magnitudes, when no time range, rendering or
  start date contains an underscore.
\<close>

theorem cacheKey_of_filters:
  "(isHistorical f \<and> isHistorical g \<and> f_minMagnitude f = f_minMagnitude g
      \<and> dateRange f = dateRange g
      \<longrightarrow> cacheKey eng (loadParams f) = cacheKey eng (loadParams g))
   \<and> (\<not> isHistorical f \<and> \<not> isHistorical g \<and> f_timeRange f = f_timeRange g
      \<and> f_minMagnitude f = f_minMagnitude g \<and> dateRange f = dateRange g
      \<longrightarrow> cacheKey eng (loadParams f) = cacheKey eng (loadParams g))
   \<and> (isHistorical f = isHistorical g \<and> f_timeRange f = f_timeRange g
      \<and> dateRange f = dateRange g \<and> numberToString eng (f_minMagnitude f) \<noteq> numberToString eng (f_minMagnitude g)
      \<longrightarrow> cacheKey eng (loadParams f) \<noteq> cacheKey eng (loadParams g))
   \<and> (plain (f_timeRange f) \<and> plain (f_timeRange g)
      \<and> plain (numberToString eng (f_minMagnitude f)) \<and> plain (numberToString eng (f_minMagnitude g))
      \<and> plain (dr_startDate (dateRange f)) \<and> plain (dr_startDate (dateRange g))
      \<and> numberToString eng (f_minMagnitude f) \<noteq> numberToString eng (f_minMagnitude g)
      \<longrightarrow> cacheKey eng (loadParams f) \<noteq> cacheKey eng (loadParams g))"
proof (intro conjI impI)
  assume "isHistorical f \<and> isHistorical g \<and> f_minMagnitude f = f_minMagnitude g
      \<and> dateRange f = dateRange g"
  then show "cacheKey eng (loadParams f) = cacheKey eng (loadParams g)"
    by (simp add: cacheKey_def loadParams_def)
next
  assume "\<not> isHistorical f \<and> \<not> isHistorical g \<and> f_timeRange f = f_timeRange g
      \<and> f_minMagnitude f = f_minMagnitude g \<and> dateRange f = dateRange g"
  then show "cacheKey eng (loadParams f) = cacheKey eng (loadParams g)"
    by (simp add: cacheKey_def loadParams_def)
next
  assume "isHistorical f = isHistorical g \<and> f_timeRange f = f_timeRange g
      \<and> dateRange f = dateRange g \<and> numberToString eng (f_minMagnitude f) \<noteq> numberToString eng (f_minMagnitude g)"
  then show "cacheKey eng (loadParams f) \<noteq> cacheKey eng (loadParams g)"
    by (simp add: cacheKey_def loadParams_def)
next
  assume a: "plain (f_timeRange f) \<and> plain (f_timeRange g)
      \<and> plain (numberToString eng (f_minMagnitude f)) \<and> plain (numberToString eng (f_minMagnitude g))
      \<and> plain (dr_startDate (dateRange f)) \<and> plain (dr_startDate (dateRange g))
      \<and> numberToString eng (f_minMagnitude f) \<noteq> numberToString eng (f_minMagnitude g)"
  have c: "plain ''custom''"
    by (simp add: plain_def)
  show "cacheKey eng (loadParams f) \<noteq> cacheKey eng (loadParams g)"
  proof
    assume "cacheKey eng (loadParams f) = cacheKey eng (loadParams g)"
    moreover have "plain (timeRange (loadParams f))" "plain (timeRange (loadParams g))"
      "plain (numberToString eng (minMagnitude (loadParams f)))" "plain (numberToString eng (minMagnitude (loadParams g)))"
      "plain (or_empty (startDate (loadParams f)))" "plain (or_empty (startDate (loadParams g)))"
      using a c by (simp_all add: loadParams_def)
    ultimately have "numberToString eng (minMagnitude (loadParams f)) = numberToString eng (minMagnitude (loadParams g))"
      using cacheKey_injective [of "loadParams f" "loadParams g" eng] by blast
    then show False
      using a by (simp add: loadParams_def)
  qed
qed

theorem cacheKey_of_filters_witness:
  "cacheKey example_engine (loadParams (day_filters ''2026-08-05'' 2))
     = ''earthquake_data_day_2_2026-08-05_2026-11-03_iran''
   \<and> cacheKey example_engine (loadParams (day_filters ''2026-08-05'' 2))
     \<noteq> cacheKey example_engine (loadParams (day_filters ''2026-08-05'' 4))
   \<and> cacheKey example_engine (loadParams archive_filters)
     = cacheKey example_engine (loadParams (archive_filters\<lparr>f_timeRange := ''week''\<rparr>))"
proof -
  let ?f = "day_filters ''2026-08-05'' 2" and ?g = "day_filters ''2026-08-05'' 4"
  have "nts_differ": "numberToString example_engine (f_minMagnitude ?f)
      \<noteq> numberToString example_engine (f_minMagnitude ?g)"
    by (simp add: day_filters_def whole_nts_values)
  have 1: "cacheKey example_engine (loadParams ?f) \<noteq> cacheKey example_engine (loadParams ?g)"
    using cacheKey_of_filters [of ?f ?g example_engine] nts_differ
    by (simp add: day_filters_def)
  have 2: "cacheKey example_engine (loadParams archive_filters)
     = cacheKey example_engine (loadParams (archive_filters\<lparr>f_timeRange := ''week''\<rparr>))"
    using cacheKey_of_filters [of archive_filters "archive_filters\<lparr>f_timeRange := ''week''\<rparr>"
        example_engine]
    by (simp add: archive_filters_def)
  have 3: "cacheKey example_engine (loadParams ?f) = ''earthquake_data_day_2_2026-08-05_2026-11-03_iran''"
    by (simp add: cacheKey_def loadParams_def day_filters_def whole_nts_values)
  show ?thesis
    using 1 2 3 by simp
qed

text \<open>
  Claim C9 as stated fails: two filters in real-time mode with the same time range and
  minimum magnitude, and different start dates, have different keys.
\<close>

theorem realtime_key_depends_on_dates:
  "isHistorical (day_filters ''2026-08-05'' 2) = isHistorical (day_filters ''2026-08-06'' 2)
   \<and> f_timeRange (day_filters ''2026-08-05'' 2) = f_timeRange (day_filters ''2026-08-06'' 2)
   \<and> f_minMagnitude (day_filters ''2026-08-05'' 2) = f_minMagnitude (day_filters ''2026-08-06'' 2)
   \<and> requestUrl example_engine 1793700000000 (loadParams (day_filters ''2026-08-05'' 2))
     = requestUrl example_engine 1793700000000 (loadParams (day_filters ''2026-08-06'' 2))
   \<and> cacheKey example_engine (loadParams (day_filters ''2026-08-05'' 2))
     \<noteq> cacheKey example_engine (loadParams (day_filters ''2026-08-06'' 2))"
  by (simp add: cacheKey_def loadParams_def day_filters_def requestUrl_def)

section \<open>Inverted date ranges\<close>

lemma start_change_repaired:
  "dr_startDate (dateRange (handleDateChange now filters StartDateField v))
     \<le> dr_endDate (dateRange (handleDateChange now filters StartDateField v))"
  by (simp add: handleDateChange_def Let_def not_less)

text \<open>
  Claim C6. A start date later than the end date is repaired when the start date is
  changed (see \<open>start_change_repaired\<close>), but not when the end date is changed to a day
  before the start date: the range stays inverted through \<open>handleFilterChange\<close> and is
  sent to the archive as it is.
\<close>

theorem inverted_range_reaches_upstream:
  "handleFilterChange 1793700000000
     (handleDateChange 1793700000000 archive_filters EndDateField ''2026-06-01'')
     = archive_filters\<lparr>dateRange := \<lparr>dr_startDate = ''2026-08-05'', dr_endDate = ''2026-06-01''\<rparr>\<rparr>
   \<and> ''2026-08-05'' > ''2026-06-01''
   \<and> requestUrl example_engine 1793700000000
       (loadParams (handleFilterChange 1793700000000
          (handleDateChange 1793700000000 archive_filters EndDateField ''2026-06-01'')))
     = ''https://earthquake.usgs.gov/fdsnws/event/1/query?format=geojson&starttime=2026-08-05&endtime=2026-06-01&minmagnitude=4&minlatitude=25&maxlatitude=40&minlongitude=44&maxlongitude=63&orderby=time&limit=500''"
proof -
  have p: "dateParse example_engine ''2026-06-01'' = Some 1780272000000"
    by code_simp
  have h: "handleFilterChange 1793700000000
     (handleDateChange 1793700000000 archive_filters EndDateField ''2026-06-01'')
     = archive_filters\<lparr>dateRange := \<lparr>dr_startDate = ''2026-08-05'', dr_endDate = ''2026-06-01''\<rparr>\<rparr>"
    by (simp add: handleFilterChange_def handleDateChange_def Let_def today_example
        archive_filters_def)
  show ?thesis
    unfolding h
    by (simp add: requestUrl_def loadParams_def archive_filters_def validEndDate_def
        date_after_def p whole_nts_values IRAN_BOUNDS_def)
qed

section \<open>The calendar\<close>






















section \<open>Dates as strings\<close>





lemma length_pad [simp]: "length (pad2 n) = 2" "length (pad4 n) = 4" "length (pad6 n) = 6"
  by (simp_all add: pad2_def pad4_def pad6_def)





















section \<open>The two clamps of the end date\<close>














end
